theory Spec2Isabelle
  imports Complex_Main "HOL-Library.Word"
begin

section \<open>Line-delimited stream reader\<close>

text \<open>
  JavaScript strings are sequences of 16-bit code units; the response body is a sequence
  of reads, each delivering a byte array (\<open>Uint8Array\<close>) or failing.
\<close>

type_synonym code_unit = "16 word"
type_synonym jsstring = "code_unit list"
type_synonym byte = "8 word"

datatype error =
    SyntaxError
  | TypeError
  | InvalidCharacterError
  | EncodingError
  | TransportError
  | AbortError

text \<open>The newline code unit \<open>'\n'\<close>.\<close>

definition NL :: code_unit where
  "NL = 10"

text \<open>
  \<open>String.prototype.trim\<close> removes leading and trailing WhiteSpace and LineTerminator
  code units (ECMAScript): TAB, LF, VT, FF, CR, SP, NBSP, U+1680, U+2000..U+200A,
  U+2028, U+2029, U+202F, U+205F, U+3000 and U+FEFF.
\<close>

definition is_js_space :: "code_unit \<Rightarrow> bool" where
  "is_js_space c =
     (c = 0x09 \<or> c = 0x0A \<or> c = 0x0B \<or> c = 0x0C \<or> c = 0x0D \<or> c = 0x20 \<or> c = 0xA0
      \<or> c = 0x1680 \<or> (0x2000 \<le> c \<and> c \<le> 0x200A) \<or> c = 0x2028 \<or> c = 0x2029
      \<or> c = 0x202F \<or> c = 0x205F \<or> c = 0x3000 \<or> c = 0xFEFF)"

definition trim :: "jsstring \<Rightarrow> jsstring" where
  "trim s = rev (dropWhile is_js_space (rev (dropWhile is_js_space s)))"

text \<open>\<open>buffer.indexOf(c)\<close>: the first position of \<open>c\<close>, or \<open>-1\<close>.\<close>

fun indexOf :: "jsstring \<Rightarrow> code_unit \<Rightarrow> int" where
  "indexOf [] c = - 1"
| "indexOf (x # xs) c =
     (if x = c then 0
      else (let i = indexOf xs c in if i = - 1 then - 1 else i + 1))"

text \<open>
  The inner loop of \<open>streamResponseLines\<close> (and of the legacy \<open>streamTextResponse\<close>,
  which is the same text):
  \<^verbatim>\<open>
      let index = buffer.indexOf('\n');
      while (index !== -1) {
        const line = buffer.slice(0, index).trim();
        buffer = buffer.slice(index + 1);
        if (line) onLine(line);
        index = buffer.indexOf('\n');
      }
  \<close>
  It returns the lines handed to \<open>onLine\<close>, in order, and the buffer that is left.
  With \<open>0 \<le> index\<close>, \<open>slice(0, index)\<close> is \<open>take\<close> and \<open>slice(index + 1)\<close> is \<open>drop\<close>.
\<close>

function drain_lines :: "jsstring \<Rightarrow> jsstring list \<times> jsstring" where
  "drain_lines buffer =
     (let index = indexOf buffer NL in
      if index \<noteq> - 1 then
        (let line = trim (take (nat index) buffer);
             buffer' = drop (nat index + 1) buffer;
             (ls, rest) = drain_lines buffer'
         in ((if line \<noteq> [] then [line] else []) @ ls, rest))
      else ([], buffer))"
  by pat_completeness auto
termination
  apply (relation "measure length")
   apply simp
  apply (case_tac buffer)
   apply simp_all
  done

declare drain_lines.simps [simp del]

text \<open>
  \<open>TextDecoder\<close> is the browser's: \<open>decoder.decode(value, {stream: true})\<close> consumes the
  bytes of one read one at a time, keeps the bytes of an unfinished character in the
  decoder, and returns the code units completed so far. The decoder is a parameter of the
  model: a step function from the decoder's state and one byte to the new state and the
  code units that byte completes. The code never flushes the decoder.
\<close>

type_synonym 'd decoder = "'d \<Rightarrow> byte \<Rightarrow> 'd \<times> jsstring"

fun decode :: "'d decoder \<Rightarrow> 'd \<Rightarrow> byte list \<Rightarrow> 'd \<times> jsstring" where
  "decode step d [] = (d, [])"
| "decode step d (b # bs) =
     (let (d1, out1) = step d b;
          (d2, out2) = decode step d1 bs
      in (d2, out1 @ out2))"

text \<open>
  One \<open>await reader.read()\<close>: a value, or a rejection (TransportError, or AbortError once
  the request's controller was aborted); the end of the list is \<open>done\<close>.
\<close>

datatype read_result = Value "byte list" | ReadFailure error

text \<open>
  The outer loop and the trailing fragment:
  \<^verbatim>\<open>
    while (true) {
      const { value, done } = await reader.read();
      if (done) break;
      buffer += decoder.decode(value, { stream: true });
      ... inner loop ...
    }
    if (buffer.trim()) { onLine(buffer.trim()); }
  \<close>
  The result is the list of lines handed to \<open>onLine\<close> and the error the function
  rejects with, if any.
\<close>

fun read_loop ::
  "'d decoder \<Rightarrow> 'd \<Rightarrow> jsstring \<Rightarrow> read_result list \<Rightarrow> jsstring list \<times> error option" where
  "read_loop step d buffer [] =
     ((if trim buffer \<noteq> [] then [trim buffer] else []), None)"
| "read_loop step d buffer (ReadFailure e # rs) = ([], Some e)"
| "read_loop step d buffer (Value bytes # rs) =
     (let (d', text) = decode step d bytes;
          (ls, buffer') = drain_lines (buffer @ text);
          (ls', res) = read_loop step d' buffer' rs
      in (ls @ ls', res))"

text \<open>
  \<open>streamResponseLines\<close> (React): a response without a body emits nothing.
  \<open>streamTextResponse\<close> (legacy): \<open>response.body.getReader()\<close> on a null body throws.
\<close>

definition streamResponseLines ::
  "'d decoder \<Rightarrow> 'd \<Rightarrow> read_result list option \<Rightarrow> jsstring list \<times> error option" where
  "streamResponseLines step d0 body =
     (case body of None \<Rightarrow> ([], None) | Some reads \<Rightarrow> read_loop step d0 [] reads)"

definition streamTextResponse ::
  "'d decoder \<Rightarrow> 'd \<Rightarrow> read_result list option \<Rightarrow> jsstring list \<times> error option" where
  "streamTextResponse step d0 body =
     (case body of None \<Rightarrow> ([], Some TypeError) | Some reads \<Rightarrow> read_loop step d0 [] reads)"

section \<open>Stream records\<close>

text \<open>String literals of the source, as code units.\<close>

definition js :: "string \<Rightarrow> jsstring" where
  "js s = map (\<lambda>c. of_nat (of_char c)) s"

text \<open>The values \<open>JSON.parse\<close> returns. An object's keys are unique.\<close>

datatype json =
    JNull
  | JBool bool
  | JNumber real
  | JString jsstring
  | JArray "json list"
  | JObject "(jsstring \<times> json) list"

text \<open>
  A property read \<open>data.k\<close> for the names the handlers read (\<open>event\<close>, \<open>inference_ms\<close>,
  \<open>audio_base64\<close>, \<open>chunk_index\<close>): it throws on \<open>null\<close>, finds the key in an object,
  and is \<open>undefined\<close> (\<open>None\<close>) on every other value.
\<close>

fun get_prop :: "json \<Rightarrow> jsstring \<Rightarrow> error + json option" where
  "get_prop JNull k = Inl TypeError"
| "get_prop (JObject kvs) k = Inr (map_of kvs k)"
| "get_prop (JBool b) k = Inr None"
| "get_prop (JNumber x) k = Inr None"
| "get_prop (JString s) k = Inr None"
| "get_prop (JArray xs) k = Inr None"

text \<open>\<open>!v\<close>: \<open>undefined\<close>, \<open>null\<close>, \<open>false\<close>, \<open>0\<close> and \<open>""\<close> are falsy.\<close>

fun falsy :: "json option \<Rightarrow> bool" where
  "falsy None = True"
| "falsy (Some JNull) = True"
| "falsy (Some (JBool b)) = (\<not> b)"
| "falsy (Some (JNumber x)) = (x = 0)"
| "falsy (Some (JString s)) = (s = [])"
| "falsy (Some (JArray xs)) = False"
| "falsy (Some (JObject kvs)) = False"

text \<open>\<open>a ?? b\<close>: \<open>b\<close> when \<open>a\<close> is \<open>undefined\<close> or \<open>null\<close>.\<close>

fun nullish_or :: "json option \<Rightarrow> json \<Rightarrow> json" where
  "nullish_or None d = d"
| "nullish_or (Some JNull) d = d"
| "nullish_or (Some v) d = v"

text \<open>\<open>Math.round\<close> rounds half up.\<close>

definition Math_round :: "real \<Rightarrow> int" where
  "Math_round x = \<lfloor>x + 1 / 2\<rfloor>"

section \<open>Audio objects\<close>

text \<open>Of a decoded \<open>AudioBuffer\<close> the code reads only \<open>duration\<close>.\<close>

record AudioBuffer =
  duration :: real

datatype automation =
    SetValueAtTime real real
  | LinearRampToValueAtTime real real

text \<open>
  One \<open>source.start(startAt)\<close> with the automation put on the gain node the source is
  connected through (none in the legacy implementation, which connects the source to the
  destination directly).
\<close>

record playback =
  start_time :: real
  source_buffer :: AudioBuffer
  gain_events :: "automation list"

datatype context_state = Suspended | Running | Closed

text \<open>
  An \<open>AudioContext\<close>: its run state and the sources started on it. Its clock
  \<open>currentTime\<close> is read from outside and is an argument of every operation that reads it.
\<close>

record AudioContext =
  ctx_state :: context_state
  scheduled :: "playback list"

text \<open>
  The browser's part of the handlers: \<open>JSON.parse\<close> (\<open>None\<close>: it throws SyntaxError),
  \<open>atob\<close> (\<open>None\<close>: it throws InvalidCharacterError; otherwise a binary string) and
  \<open>decodeAudioData\<close> (\<open>None\<close>: the promise rejects).
\<close>

record platform =
  JSON_parse :: "jsstring \<Rightarrow> json option"
  atob :: "json \<Rightarrow> jsstring option"
  decodeAudioData :: "byte list \<Rightarrow> AudioBuffer option"

text \<open>The clocks read during one synchronous stretch of code.\<close>

record clock =
  currentTime :: real
  performance_now :: real
  Date_now :: real

text \<open>
  \<^verbatim>\<open>
  const bytes = new Uint8Array(binary.length);
  for (let i = 0; i < binary.length; i += 1) { bytes[i] = binary.charCodeAt(i); }
  \<close>
  A store into a \<open>Uint8Array\<close> keeps the low eight bits.
\<close>

definition binary_to_bytes :: "jsstring \<Rightarrow> byte list" where
  "binary_to_bytes binary = map ucast binary"

section \<open>The React implementation\<close>

datatype StepStatus = StatusIdle | StatusRunning | StatusDone | StatusError

text \<open>\<open>InferenceChunk\<close> of \<open>types.ts\<close>; \<open>index\<close> holds whatever \<open>data.chunk_index\<close> was.\<close>

record InferenceChunk =
  index :: "json option"
  chunk_duration :: real
  receivedAt :: real

text \<open>The \<open>latency\<close> state: \<open>total\<close> holds \<open>data.inference_ms\<close> as it came.\<close>

record latency_info =
  ttfa :: int
  total :: json

text \<open>
  The refs and the state of \<open>App\<close> that the synthesis path touches. AbortControllers are
  numbered in the order of their creation; \<open>aborted\<close> lists the ones whose \<open>abort()\<close> was
  called.
\<close>

record app_state =
  audioContextRef :: "AudioContext option"
  nextStartTimeRef :: real
  streamAbortRef :: "nat option"
  controllers :: nat
  aborted :: "nat list"
  inferenceStatus :: StepStatus
  inferenceChunks :: "InferenceChunk list"
  latency :: "latency_info option"

text \<open>
  The state \<open>App\<close> mounts with: \<open>useRef(null)\<close>, \<open>useRef(0)\<close>, \<open>useRef(null)\<close>, the
  inference step \<open>'idle'\<close>, no chunks, \<open>latency\<close> \<open>null\<close>.
\<close>

definition initial_app_state :: app_state where
  "initial_app_state =
     \<lparr>audioContextRef = None, nextStartTimeRef = 0, streamAbortRef = None, controllers = 0,
      aborted = [], inferenceStatus = StatusIdle, inferenceChunks = [], latency = None\<rparr>"

text \<open>
  \<^verbatim>\<open>
  const ensureAudioContext = async () => {
    if (!audioContextRef.current) { audioContextRef.current = new AudioContext(); }
    if (audioContextRef.current.state === 'suspended') { await audioContextRef.current.resume(); }
  };
  \<close>
  \<open>init\<close> is the run state the browser gives a new context.
\<close>

definition ensureAudioContext :: "context_state \<Rightarrow> app_state \<Rightarrow> app_state" where
  "ensureAudioContext init st =
     (let ctx = (case audioContextRef st of
                   None \<Rightarrow> \<lparr>ctx_state = init, scheduled = []\<rparr>
                 | Some c \<Rightarrow> c)
      in st\<lparr>audioContextRef :=
              Some (if ctx_state ctx = Suspended then ctx\<lparr>ctx_state := Running\<rparr> else ctx)\<rparr>)"

text \<open>
  \<^verbatim>\<open>
  const resetAudio = async () => {
    if (audioContextRef.current) {
      await audioContextRef.current.close();
      audioContextRef.current = null;
    }
    nextStartTimeRef.current = 0;
  };
  \<close>
\<close>

definition resetAudio :: "app_state \<Rightarrow> app_state" where
  "resetAudio st =
     (case audioContextRef st of
        Some ctx \<Rightarrow> st\<lparr>audioContextRef := None\<rparr>
      | None \<Rightarrow> st)\<lparr>nextStartTimeRef := 0\<rparr>"

definition safeRelease :: "real \<Rightarrow> real" where
  "safeRelease d = min 0.01 (max 0.002 (d / 4))"

definition safeAttack :: "real \<Rightarrow> real" where
  "safeAttack d = min 0.01 (max 0.002 (d / 4))"

text \<open>
  \<^verbatim>\<open>
  const scheduleBuffer = (buffer: AudioBuffer) => {
    if (!audioContextRef.current) return;
    ...
    const attack = 0.01; const release = 0.01; const overlap = 0.008;
    const startAt = Math.max(ctx.currentTime + 0.05, nextStartTimeRef.current);
    const safeRelease = Math.min(release, Math.max(0.002, buffer.duration / 4));
    const safeAttack = Math.min(attack, Math.max(0.002, buffer.duration / 4));
    gain.gain.setValueAtTime(0, startAt);
    gain.gain.linearRampToValueAtTime(1, startAt + safeAttack);
    gain.gain.setValueAtTime(1, Math.max(startAt + safeAttack, startAt + buffer.duration - safeRelease));
    gain.gain.linearRampToValueAtTime(0, startAt + buffer.duration);
    source.start(startAt);
    nextStartTimeRef.current = startAt + buffer.duration - overlap;
  };
  \<close>
\<close>

definition scheduleBuffer :: "real \<Rightarrow> AudioBuffer \<Rightarrow> app_state \<Rightarrow> app_state" where
  "scheduleBuffer now buffer st =
     (case audioContextRef st of
        None \<Rightarrow> st
      | Some ctx \<Rightarrow>
          (let overlap = 0.008;
               startAt = max (now + 0.05) (nextStartTimeRef st);
               events =
                 [SetValueAtTime 0 startAt,
                  LinearRampToValueAtTime 1 (startAt + safeAttack (duration buffer)),
                  SetValueAtTime 1
                    (max (startAt + safeAttack (duration buffer))
                         (startAt + duration buffer - safeRelease (duration buffer))),
                  LinearRampToValueAtTime 0 (startAt + duration buffer)];
               src = \<lparr>start_time = startAt, source_buffer = buffer, gain_events = events\<rparr>
           in st\<lparr>audioContextRef := Some (ctx\<lparr>scheduled := scheduled ctx @ [src]\<rparr>),
                 nextStartTimeRef := startAt + duration buffer - overlap\<rparr>))"





text \<open>
  The gain envelope an automation list of the shape \<open>scheduleBuffer\<close> writes describes: the
  length of the ramp up (from the first event to the end of the first ramp), the time the
  gain is then held (up to the second \<open>setValueAtTime\<close>), and the length of the ramp down
  (from there to the end of the last ramp). A ramp runs from the time of the event before
  it to its own time.
\<close>

fun envelope :: "automation list \<Rightarrow> (real \<times> real \<times> real) option" where
  "envelope [SetValueAtTime v0 t0, LinearRampToValueAtTime v1 t1,
             SetValueAtTime v2 t2, LinearRampToValueAtTime v3 t3] =
     Some (t1 - t0, t2 - t1, t3 - t2)"
| "envelope events = None"

text \<open>The source started last on the current context, and its envelope.\<close>

definition last_source :: "app_state \<Rightarrow> playback option" where
  "last_source st =
     (case audioContextRef st of
        None \<Rightarrow> None
      | Some ctx \<Rightarrow> (case rev (scheduled ctx) of [] \<Rightarrow> None | p # ps \<Rightarrow> Some p))"

definition last_envelope :: "app_state \<Rightarrow> (real \<times> real \<times> real) option" where
  "last_envelope st =
     (case last_source st of None \<Rightarrow> None | Some p \<Rightarrow> envelope (gain_events p))"

text \<open>The variables one call of \<open>startInference\<close> closes over.\<close>

record session =
  controller :: nat
  startTime :: real
  firstChunk :: bool

text \<open>
  \<open>startInference\<close> up to the \<open>fetch\<close>:
  \<^verbatim>\<open>
    if (!profile.name || !inferenceText) return;
    await ensureAudioContext();
    setStepStatuses(prev => ({ ...prev, inference: 'running' }));
    setInferenceChunks([]);
    setLatency(null);
    nextStartTimeRef.current = audioContextRef.current?.currentTime || 0;
    if (streamAbortRef.current) { streamAbortRef.current.abort(); }
    const controller = new AbortController();
    streamAbortRef.current = controller;
    const startTime = performance.now();
    let firstChunk = true;
  \<close>
\<close>

definition startInference ::
  "context_state \<Rightarrow> clock \<Rightarrow> jsstring \<Rightarrow> jsstring \<Rightarrow> app_state \<Rightarrow> session option \<times> app_state" where
  "startInference init clk profile_name inferenceText st =
     (if profile_name = [] \<or> inferenceText = [] then (None, st)
      else
        (let st1 = ensureAudioContext init st;
             st2 = st1\<lparr>inferenceStatus := StatusRunning, inferenceChunks := [], latency := None,
                       nextStartTimeRef :=
                         (case audioContextRef st1 of
                            None \<Rightarrow> 0
                          | Some ctx \<Rightarrow> if currentTime clk = 0 then 0 else currentTime clk)\<rparr>;
             st3 = (case streamAbortRef st2 of
                      None \<Rightarrow> st2
                    | Some prior \<Rightarrow> st2\<lparr>aborted := aborted st2 @ [prior]\<rparr>);
             c = controllers st3;
             st4 = st3\<lparr>controllers := c + 1, streamAbortRef := Some c\<rparr>
         in (Some \<lparr>controller = c, startTime = performance_now clk, firstChunk = True\<rparr>, st4)))"

text \<open>
  \<^verbatim>\<open>
  const stopInference = async () => {
    if (streamAbortRef.current) streamAbortRef.current.abort();
    await resetAudio();
    setStepStatuses(prev => ({ ...prev, inference: 'idle' }));
  };
  \<close>
\<close>

definition stopInference :: "app_state \<Rightarrow> app_state" where
  "stopInference st =
     (let st1 = (case streamAbortRef st of
                   None \<Rightarrow> st
                 | Some c \<Rightarrow> st\<lparr>aborted := aborted st @ [c]\<rparr>)
      in (resetAudio st1)\<lparr>inferenceStatus := StatusIdle\<rparr>)"

text \<open>
  How one call of the asynchronous line handler stands: its promise is fulfilled, it is
  rejected with the error thrown, or it waits for \<open>decodeAudioData\<close> on the bytes, holding
  \<open>data.chunk_index\<close>.
\<close>

datatype settled = Fulfilled | Rejected error | AwaitDecode "byte list" "json option"

text \<open>
  The handler \<open>startInference\<close> passes to \<open>streamResponseLines\<close>, up to its \<open>await\<close>:
  \<^verbatim>\<open>
        const data = JSON.parse(line);
        if (data.event === 'done') {
          setLatency(prev => prev ? { ...prev, total: data.inference_ms ?? Math.round(performance.now() - startTime) } : null);
          setStepStatuses(prev => ({ ...prev, inference: 'done' }));
          return;
        }
        if (!data.audio_base64) return;
        if (firstChunk) {
          firstChunk = false;
          setLatency({ ttfa: Math.round(performance.now() - startTime), total: 0 });
        }
        const binary = atob(data.audio_base64);
        ... bytes ...
        const buffer = await audioContextRef.current!.decodeAudioData(bytes.buffer);
  \<close>
  There is no \<open>try\<close> around it: whatever it throws rejects the handler's promise.
\<close>

definition line_handler ::
  "platform \<Rightarrow> clock \<Rightarrow> session \<Rightarrow> jsstring \<Rightarrow> app_state \<Rightarrow> settled \<times> session \<times> app_state" where
  "line_handler P clk sess line st =
     (case JSON_parse P line of
        None \<Rightarrow> (Rejected SyntaxError, sess, st)
      | Some data \<Rightarrow>
          (case get_prop data (js ''event'') of
             Inl e \<Rightarrow> (Rejected e, sess, st)
           | Inr ev \<Rightarrow>
               if ev = Some (JString (js ''done'')) then
                 (let elapsed = JNumber (of_int (Math_round (performance_now clk - startTime sess)));
                      inference_ms = (case get_prop data (js ''inference_ms'') of
                                        Inl e \<Rightarrow> None | Inr v \<Rightarrow> v)
                  in (Fulfilled, sess,
                      st\<lparr>latency :=
                            (case latency st of
                               None \<Rightarrow> None
                             | Some prev \<Rightarrow> Some (prev\<lparr>total := nullish_or inference_ms elapsed\<rparr>)),
                          inferenceStatus := StatusDone\<rparr>))
               else
                 (case get_prop data (js ''audio_base64'') of
                    Inl e \<Rightarrow> (Rejected e, sess, st)
                  | Inr None \<Rightarrow> (Fulfilled, sess, st)
                  | Inr (Some payload) \<Rightarrow>
                      if falsy (Some payload) then (Fulfilled, sess, st)
                      else
                        (let (sess1, st1) =
                               (if firstChunk sess then
                                  (sess\<lparr>firstChunk := False\<rparr>,
                                   st\<lparr>latency :=
                                         Some \<lparr>ttfa = Math_round (performance_now clk - startTime sess),
                                               total = JNumber 0\<rparr>\<rparr>)
                                else (sess, st))
                         in (case atob P payload of
                               None \<Rightarrow> (Rejected InvalidCharacterError, sess1, st1)
                             | Some binary \<Rightarrow>
                                 (case audioContextRef st1 of
                                    None \<Rightarrow> (Rejected TypeError, sess1, st1)
                                  | Some ctx \<Rightarrow>
                                      (AwaitDecode (binary_to_bytes binary)
                                         (case get_prop data (js ''chunk_index'') of
                                            Inl e \<Rightarrow> None | Inr v \<Rightarrow> v),
                                       sess1, st1)))))))"

text \<open>
  The rest of the handler, once \<open>decodeAudioData\<close> has settled (\<open>None\<close>: rejected):
  \<^verbatim>\<open>
        scheduleBuffer(buffer);
        setInferenceChunks(prev => [...prev, { index: data.chunk_index, duration: buffer.duration, receivedAt: Date.now() }]);
  \<close>
\<close>

definition decode_settled ::
  "clock \<Rightarrow> json option \<Rightarrow> AudioBuffer option \<Rightarrow> app_state \<Rightarrow> settled \<times> app_state" where
  "decode_settled clk chunk_index result st =
     (case result of
        None \<Rightarrow> (Rejected EncodingError, st)
      | Some buffer \<Rightarrow>
          (let st1 = scheduleBuffer (currentTime clk) buffer st
           in (Fulfilled,
               st1\<lparr>inferenceChunks := inferenceChunks st1 @
                     [\<lparr>index = chunk_index, chunk_duration = duration buffer,
                       receivedAt = Date_now clk\<rparr>]\<rparr>)))"

text \<open>
  One line handled to its end: the handler up to its \<open>await\<close>, then the rest with the
  result of the decode, read at the same clocks. In the code other handlers may run between
  the two halves; \<open>line_handler\<close> and \<open>decode_settled\<close> are the two steps that cannot be
  interrupted.
\<close>

definition handle_line ::
  "platform \<Rightarrow> clock \<Rightarrow> session \<Rightarrow> jsstring \<Rightarrow> app_state \<Rightarrow> settled \<times> session \<times> app_state" where
  "handle_line P clk sess line st =
     (case line_handler P clk sess line st of
        (AwaitDecode bytes chunk_index, sess1, st1) \<Rightarrow>
          (let (r, st2) = decode_settled clk chunk_index (decodeAudioData P bytes) st1
           in (r, sess1, st2))
      | (r, sess1, st1) \<Rightarrow> (r, sess1, st1))"

text \<open>
  \<open>streamResponseLines\<close> calls \<open>onLine(line)\<close> and drops the promise it returns, so a
  rejected handler stops nothing, and the handlers of several lines may wait for their
  decodes at the same time: chunks are scheduled in the order in which the decodes settle.
  \<open>process_lines\<close> is the run in which every decode settles before the next line is read;
  each line comes with the clocks read while it is handled.
\<close>

fun process_lines ::
  "platform \<Rightarrow> (clock \<times> jsstring) list \<Rightarrow> session \<Rightarrow> app_state \<Rightarrow> session \<times> app_state" where
  "process_lines P [] sess st = (sess, st)"
| "process_lines P ((clk, line) # rest) sess st =
     (case handle_line P clk sess line st of
        (r, sess1, st1) \<Rightarrow> process_lines P rest sess1 st1)"

text \<open>Buffers scheduled one after the other, each at its own reading of the audio clock.\<close>

fun schedule_all :: "(real \<times> AudioBuffer) list \<Rightarrow> app_state \<Rightarrow> app_state" where
  "schedule_all [] st = st"
| "schedule_all ((now, buffer) # rest) st = schedule_all rest (scheduleBuffer now buffer st)"

text \<open>The start times of the sources started on the current context, in order.\<close>

definition started :: "app_state \<Rightarrow> real list" where
  "started st =
     (case audioContextRef st of None \<Rightarrow> [] | Some ctx \<Rightarrow> map start_time (scheduled ctx))"


section \<open>The legacy DOM implementation\<close>

text \<open>
  What the legacy page writes into \<open>streamStatus\<close>, \<open>streamTiming\<close> and \<open>streamLog\<close>; the
  numbers are the ones \<open>toFixed\<close> prints.
\<close>

datatype status_text = NoStatus | ProvideProfileAndText | StreamingText | DoneText | StoppedText
  | ErrorText error

datatype timing_text = NoTiming | FirstAudio int | Total int

datatype log_line = ChunkLine "json option" real | ParseErrorLine error

text \<open>
  \<^verbatim>\<open>
  const state = { lastUpload: null, streamAbort: null, audioCtx: null, nextStart: 0 };
  \<close>
  with the three elements of the page the stream handler writes and the controllers
  aborted so far. \<open>lastUpload\<close> is not read on this path.
\<close>

record legacy_state =
  streamAbort :: "nat option"
  audioCtx :: "AudioContext option"
  nextStart :: real
  legacy_controllers :: nat
  legacy_aborted :: "nat list"
  streamStatus :: status_text
  streamTiming :: timing_text
  streamLog :: "log_line list"

definition initial_legacy_state :: legacy_state where
  "initial_legacy_state =
     \<lparr>streamAbort = None, audioCtx = None, nextStart = 0, legacy_controllers = 0,
      legacy_aborted = [], streamStatus = NoStatus, streamTiming = NoTiming, streamLog = []\<rparr>"

definition legacy_ensureAudioContext :: "context_state \<Rightarrow> legacy_state \<Rightarrow> legacy_state" where
  "legacy_ensureAudioContext init st =
     (let ctx = (case audioCtx st of
                   None \<Rightarrow> \<lparr>ctx_state = init, scheduled = []\<rparr>
                 | Some c \<Rightarrow> c)
      in st\<lparr>audioCtx :=
              Some (if ctx_state ctx = Suspended then ctx\<lparr>ctx_state := Running\<rparr> else ctx)\<rparr>)"

text \<open>
  \<^verbatim>\<open>
  const scheduleBuffer = (buffer) => {
    if (!state.audioCtx) return;
    const source = state.audioCtx.createBufferSource();
    source.buffer = buffer;
    source.connect(state.audioCtx.destination);
    const startAt = Math.max(state.nextStart, state.audioCtx.currentTime + 0.05);
    source.start(startAt);
    state.nextStart = startAt + buffer.duration;
  };
  \<close>
\<close>

definition legacy_scheduleBuffer :: "real \<Rightarrow> AudioBuffer \<Rightarrow> legacy_state \<Rightarrow> legacy_state" where
  "legacy_scheduleBuffer now buffer st =
     (case audioCtx st of
        None \<Rightarrow> st
      | Some ctx \<Rightarrow>
          (let startAt = max (nextStart st) (now + 0.05);
               src = \<lparr>start_time = startAt, source_buffer = buffer, gain_events = []\<rparr>
           in st\<lparr>audioCtx := Some (ctx\<lparr>scheduled := scheduled ctx @ [src]\<rparr>),
                 nextStart := startAt + duration buffer\<rparr>))"

text \<open>
  \<^verbatim>\<open>
  const stopStream = () => {
    if (state.streamAbort) { state.streamAbort.abort(); state.streamAbort = null; }
    streamStatus.textContent = "Stopped.";
  };
  \<close>
\<close>

definition stopStream :: "legacy_state \<Rightarrow> legacy_state" where
  "stopStream st =
     (case streamAbort st of
        Some c \<Rightarrow> st\<lparr>legacy_aborted := legacy_aborted st @ [c], streamAbort := None\<rparr>
      | None \<Rightarrow> st)\<lparr>streamStatus := StoppedText\<rparr>"

text \<open>The variables one click on \<open>streamBtn\<close> closes over.\<close>

record legacy_session =
  legacy_controller :: nat
  start :: real
  firstChunkTime :: "real option"

text \<open>
  The click handler of \<open>streamBtn\<close> up to the \<open>fetch\<close>:
  \<^verbatim>\<open>
  const profile = document.getElementById("inferProfile").value.trim();
  const text = document.getElementById("inferText").value.trim();
  if (!profile || !text) { streamStatus.textContent = "Provide profile name and text."; return; }
  streamStatus.textContent = "Streaming...";
  streamTiming.textContent = "";
  setLog(streamLog, "");
  await ensureAudioContext();
  state.nextStart = state.audioCtx.currentTime + 0.1;
  ...
  const controller = new AbortController();
  state.streamAbort = controller;
  const start = performance.now();
  let firstChunkTime = null;
  \<close>
\<close>

definition streamBtn_click ::
  "context_state \<Rightarrow> clock \<Rightarrow> jsstring \<Rightarrow> jsstring \<Rightarrow> legacy_state
     \<Rightarrow> legacy_session option \<times> legacy_state" where
  "streamBtn_click init clk inferProfile inferText st =
     (if trim inferProfile = [] \<or> trim inferText = [] then
        (None, st\<lparr>streamStatus := ProvideProfileAndText\<rparr>)
      else
        (let st1 = st\<lparr>streamStatus := StreamingText, streamTiming := NoTiming, streamLog := []\<rparr>;
             st2 = legacy_ensureAudioContext init st1;
             st3 = st2\<lparr>nextStart := currentTime clk + 0.1\<rparr>;
             c = legacy_controllers st3;
             st4 = st3\<lparr>legacy_controllers := c + 1, streamAbort := Some c\<rparr>
         in (Some \<lparr>legacy_controller = c, start = performance_now clk, firstChunkTime = None\<rparr>,
             st4)))"

text \<open>\<open>catch (err) { appendLog(streamLog, `Parse error: ${err}\n`); }\<close>\<close>

definition caught :: "error \<Rightarrow> legacy_session \<Rightarrow> legacy_state \<Rightarrow> settled \<times> legacy_session \<times> legacy_state" where
  "caught err sess st = (Fulfilled, sess, st\<lparr>streamLog := streamLog st @ [ParseErrorLine err]\<rparr>)"

text \<open>
  The legacy line handler up to its \<open>await\<close>; the whole body stands in a \<open>try\<close>:
  \<^verbatim>\<open>
      try {
        const data = JSON.parse(line);
        if (data.event === "done") {
          const totalMs = (performance.now() - start).toFixed(0);
          streamTiming.textContent = `Total: ${totalMs} ms`;
          streamStatus.textContent = "Done.";
          return;
        }
        if (!data.audio_base64) return;
        if (!firstChunkTime) {
          firstChunkTime = performance.now() - start;
          streamTiming.textContent = `First audio: ${firstChunkTime.toFixed(0)} ms`;
        }
        const arrayBuffer = base64ToArrayBuffer(data.audio_base64);
        const buffer = await state.audioCtx.decodeAudioData(arrayBuffer);
        ...
      } catch (err) { appendLog(streamLog, `Parse error: ${err}\n`); }
  \<close>
\<close>

definition legacy_line_handler ::
  "platform \<Rightarrow> clock \<Rightarrow> legacy_session \<Rightarrow> jsstring \<Rightarrow> legacy_state
     \<Rightarrow> settled \<times> legacy_session \<times> legacy_state" where
  "legacy_line_handler P clk sess line st =
     (case JSON_parse P line of
        None \<Rightarrow> caught SyntaxError sess st
      | Some data \<Rightarrow>
          (case get_prop data (js ''event'') of
             Inl e \<Rightarrow> caught e sess st
           | Inr ev \<Rightarrow>
               if ev = Some (JString (js ''done'')) then
                 (Fulfilled, sess,
                  st\<lparr>streamTiming := Total (Math_round (performance_now clk - start sess)),
                      streamStatus := DoneText\<rparr>)
               else
                 (case get_prop data (js ''audio_base64'') of
                    Inl e \<Rightarrow> caught e sess st
                  | Inr None \<Rightarrow> (Fulfilled, sess, st)
                  | Inr (Some payload) \<Rightarrow>
                      if falsy (Some payload) then (Fulfilled, sess, st)
                      else
                        (let (sess1, st1) =
                               (if firstChunkTime sess = None \<or> firstChunkTime sess = Some 0 then
                                  (sess\<lparr>firstChunkTime := Some (performance_now clk - start sess)\<rparr>,
                                   st\<lparr>streamTiming :=
                                         FirstAudio (Math_round (performance_now clk - start sess))\<rparr>)
                                else (sess, st))
                         in (case atob P payload of
                               None \<Rightarrow> caught InvalidCharacterError sess1 st1
                             | Some binary \<Rightarrow>
                                 (case audioCtx st1 of
                                    None \<Rightarrow> caught TypeError sess1 st1
                                  | Some ctx \<Rightarrow>
                                      (AwaitDecode (binary_to_bytes binary)
                                         (case get_prop data (js ''chunk_index'') of
                                            Inl e \<Rightarrow> None | Inr v \<Rightarrow> v),
                                       sess1, st1)))))))"

text \<open>
  The rest of the legacy handler, once \<open>decodeAudioData\<close> has settled:
  \<^verbatim>\<open>
        scheduleBuffer(buffer);
        appendLog(streamLog, `Chunk ${data.chunk_index} (${buffer.duration.toFixed(2)}s)\n`);
  \<close>
  still inside the \<open>try\<close>.
\<close>

definition legacy_decode_settled ::
  "clock \<Rightarrow> json option \<Rightarrow> AudioBuffer option \<Rightarrow> legacy_session \<Rightarrow> legacy_state
     \<Rightarrow> settled \<times> legacy_session \<times> legacy_state" where
  "legacy_decode_settled clk chunk_index result sess st =
     (case result of
        None \<Rightarrow> caught EncodingError sess st
      | Some buffer \<Rightarrow>
          (let st1 = legacy_scheduleBuffer (currentTime clk) buffer st
           in (Fulfilled, sess,
               st1\<lparr>streamLog := streamLog st1 @ [ChunkLine chunk_index (duration buffer)]\<rparr>)))"

definition legacy_handle_line ::
  "platform \<Rightarrow> clock \<Rightarrow> legacy_session \<Rightarrow> jsstring \<Rightarrow> legacy_state
     \<Rightarrow> settled \<times> legacy_session \<times> legacy_state" where
  "legacy_handle_line P clk sess line st =
     (case legacy_line_handler P clk sess line st of
        (AwaitDecode bytes chunk_index, sess1, st1) \<Rightarrow>
          legacy_decode_settled clk chunk_index (decodeAudioData P bytes) sess1 st1
      | (r, sess1, st1) \<Rightarrow> (r, sess1, st1))"

fun legacy_schedule_all :: "(real \<times> AudioBuffer) list \<Rightarrow> legacy_state \<Rightarrow> legacy_state" where
  "legacy_schedule_all [] st = st"
| "legacy_schedule_all ((now, buffer) # rest) st =
     legacy_schedule_all rest (legacy_scheduleBuffer now buffer st)"

definition legacy_started :: "legacy_state \<Rightarrow> real list" where
  "legacy_started st =
     (case audioCtx st of None \<Rightarrow> [] | Some ctx \<Rightarrow> map start_time (scheduled ctx))"

section \<open>A browser for the end-to-end scenarios\<close>

text \<open>
  A test double of the browser's part, enough for the lines of the scenarios: \<open>JSON.parse\<close>
  knows the lines listed and throws on every other line, \<open>atob\<close> decodes two payloads and
  throws on every other value, and \<open>decodeAudioData\<close> decodes the bytes \<open>RIFF\<close> into a clip
  of half a second and rejects all other bytes.
\<close>

definition scenario_platform :: platform where
  \<open>scenario_platform =
     \<lparr>JSON_parse = map_of
        [(js ''{"chunk_index":0,"audio_base64":"UklGRg=="}'',
            JObject [(js ''chunk_index'', JNumber 0), (js ''audio_base64'', JString (js ''UklGRg==''))]),
         (js ''{"chunk_index":1,"audio_base64":"UklGRg=="}'',
            JObject [(js ''chunk_index'', JNumber 1), (js ''audio_base64'', JString (js ''UklGRg==''))]),
         (js ''{"audio_base64":"<invalid>"}'',
            JObject [(js ''audio_base64'', JString (js ''<invalid>''))]),
         (js ''{"audio_base64":"AAAA"}'',
            JObject [(js ''audio_base64'', JString (js ''AAAA''))]),
         (js ''{"event":"done","inference_ms":900}'',
            JObject [(js ''event'', JString (js ''done'')), (js ''inference_ms'', JNumber 900)]),
         (js ''{"event":"done"}'',
            JObject [(js ''event'', JString (js ''done''))]),
         (js ''{"status":"warming up"}'',
            JObject [(js ''status'', JString (js ''warming up''))]),
         (js ''null'', JNull)],
      atob = (\<lambda>v. if v = JString (js ''UklGRg=='') then Some (js ''RIFF'')
                  else if v = JString (js ''AAAA'') then Some [0, 0, 0]
                  else None),
      decodeAudioData = (\<lambda>bytes. if bytes = binary_to_bytes (js ''RIFF'')
                                 then Some \<lparr>duration = 1 / 2\<rparr> else None)\<rparr>\<close>

section \<open>Properties of the line reader\<close>

lemma indexOf_lower: "- 1 \<le> indexOf xs c"
  by (induction xs) (auto simp: Let_def)

lemma indexOf_nonneg: "indexOf xs c \<noteq> - 1 \<Longrightarrow> 0 \<le> indexOf xs c"
  using indexOf_lower [of xs c] by arith

lemma indexOf_none: "indexOf xs c = - 1 \<longleftrightarrow> c \<notin> set xs"
proof (induction xs)
  case Nil
  then show ?case by simp
next
  case (Cons x xs)
  have "0 \<le> indexOf xs c + 1" using indexOf_lower [of xs c] by arith
  then have "indexOf xs c + 1 \<noteq> - 1" by arith
  with Cons show ?case by (auto simp: Let_def)
qed

lemma indexOf_less: "indexOf xs c \<noteq> - 1 \<Longrightarrow> nat (indexOf xs c) < length xs"
proof (induction xs)
  case Nil
  then show ?case by simp
next
  case (Cons x xs)
  show ?case
  proof (cases "x = c")
    case True
    then show ?thesis by simp
  next
    case False
    with Cons.prems have ne: "indexOf xs c \<noteq> - 1" by (auto simp: Let_def)
    then have "nat (indexOf xs c) < length xs" by (rule Cons.IH)
    moreover have "0 \<le> indexOf xs c" using ne by (rule indexOf_nonneg)
    ultimately show ?thesis using False ne by (simp add: Let_def nat_add_distrib)
  qed
qed

lemma indexOf_append: "indexOf xs c \<noteq> - 1 \<Longrightarrow> indexOf (xs @ ys) c = indexOf xs c"
  by (induction xs) (auto simp: Let_def)

lemma drain_lines_no_nl: "NL \<notin> set buffer \<Longrightarrow> drain_lines buffer = ([], buffer)"
  by (subst drain_lines.simps) (simp add: indexOf_none)

lemma drain_lines_append:
  "drain_lines (a @ b) =
     (case drain_lines a of (la, ra) \<Rightarrow>
        (case drain_lines (ra @ b) of (lb, rb) \<Rightarrow> (la @ lb, rb)))"
proof (induction a rule: drain_lines.induct)
  case (1 buffer)
  show ?case
  proof (cases "indexOf buffer NL = - 1")
    case True
    then have "drain_lines buffer = ([], buffer)" by (subst drain_lines.simps) simp
    then show ?thesis by (simp split: prod.splits)
  next
    case False
    let ?i = "nat (indexOf buffer NL)"
    have lt: "?i < length buffer" using False by (rule indexOf_less)
    have app: "indexOf (buffer @ b) NL = indexOf buffer NL"
      using False by (rule indexOf_append)
    have tk: "take ?i (buffer @ b) = take ?i buffer" using lt by simp
    have dr: "drop (?i + 1) (buffer @ b) = drop (?i + 1) buffer @ b" using lt by simp
    have ih: "drain_lines (drop (?i + 1) buffer @ b) =
        (case drain_lines (drop (?i + 1) buffer) of (la, ra) \<Rightarrow>
          (case drain_lines (ra @ b) of (lb, rb) \<Rightarrow> (la @ lb, rb)))"
      using "1.IH" [OF refl False refl refl] by simp
    have l: "drain_lines buffer =
        (case drain_lines (drop (?i + 1) buffer) of (ls, rest) \<Rightarrow>
           ((if trim (take ?i buffer) \<noteq> [] then [trim (take ?i buffer)] else []) @ ls, rest))"
      using False by (subst drain_lines.simps) (simp add: Let_def)
    have r: "drain_lines (buffer @ b) =
        (case drain_lines (drop (?i + 1) buffer @ b) of (ls, rest) \<Rightarrow>
           ((if trim (take ?i buffer) \<noteq> [] then [trim (take ?i buffer)] else []) @ ls, rest))"
      by (subst drain_lines.simps)
         (simp only: app tk dr Let_def False not_False_eq_True if_True)
    show ?thesis unfolding l r ih by (simp split: prod.splits)
  qed
qed

lemma drain_lines_rest: "NL \<notin> set (snd (drain_lines buffer))"
proof (induction buffer rule: drain_lines.induct)
  case (1 buffer)
  show ?case
  proof (cases "indexOf buffer NL = - 1")
    case True
    then show ?thesis by (subst drain_lines.simps) (simp add: indexOf_none)
  next
    case False
    then show ?thesis
      using "1.IH" [OF refl False refl refl]
      by (subst drain_lines.simps) (auto simp: Let_def split: prod.splits)
  qed
qed

lemma decode_append:
  "decode step d (xs @ ys) =
     (case decode step d xs of (d1, o1) \<Rightarrow>
        (case decode step d1 ys of (d2, o2) \<Rightarrow> (d2, o1 @ o2)))"
  by (induction xs arbitrary: d) (auto split: prod.splits)

lemma read_loop_single:
  "read_loop step d buffer [Value bytes] =
     (case decode step d bytes of (d', text) \<Rightarrow>
        (case drain_lines (buffer @ text) of (ls, rest) \<Rightarrow>
           (ls @ (if trim rest \<noteq> [] then [trim rest] else []), None)))"
  by (simp split: prod.splits)

lemma read_loop_concat:
  "NL \<notin> set buffer \<Longrightarrow>
   read_loop step d buffer (map Value chunks) = read_loop step d buffer [Value (concat chunks)]"
proof (induction chunks arbitrary: d buffer)
  case Nil
  then show ?case by (simp add: drain_lines_no_nl)
next
  case (Cons c cs)
  obtain d1 t1 where dc: "decode step d c = (d1, t1)" by (cases "decode step d c")
  obtain l1 b1 where dr1: "drain_lines (buffer @ t1) = (l1, b1)"
    by (cases "drain_lines (buffer @ t1)")
  obtain d2 t2 where dcs: "decode step d1 (concat cs) = (d2, t2)"
    by (cases "decode step d1 (concat cs)")
  obtain l2 b2 where dr2: "drain_lines (b1 @ t2) = (l2, b2)"
    by (cases "drain_lines (b1 @ t2)")
  have nl: "NL \<notin> set b1" using drain_lines_rest [of "buffer @ t1"] dr1 by simp
  have ih: "read_loop step d1 b1 (map Value cs) = read_loop step d1 b1 [Value (concat cs)]"
    using nl by (rule Cons.IH)
  have whole: "decode step d (c @ concat cs) = (d2, t1 @ t2)"
    by (simp add: decode_append dc dcs)
  have dr: "drain_lines (buffer @ t1 @ t2) = (l1 @ l2, b2)"
    using drain_lines_append [of "buffer @ t1" t2] dr1 dr2 by simp
  have step1: "read_loop step d buffer (map Value (c # cs)) =
      (case read_loop step d1 b1 (map Value cs) of (ls', res) \<Rightarrow> (l1 @ ls', res))"
    by (simp add: dc dr1)
  have step2: "read_loop step d1 b1 [Value (concat cs)] =
      (l2 @ (if trim b2 \<noteq> [] then [trim b2] else []), None)"
    by (simp add: dcs dr2)
  have lhs: "read_loop step d buffer (map Value (c # cs)) =
      (l1 @ l2 @ (if trim b2 \<noteq> [] then [trim b2] else []), None)"
    unfolding step1 ih step2 by simp
  have rhs: "read_loop step d buffer [Value (concat (c # cs))] =
      (l1 @ l2 @ (if trim b2 \<noteq> [] then [trim b2] else []), None)"
    by (simp add: whole dr)
  show ?case unfolding lhs rhs ..
qed

text \<open>
  C2. Split-invariance of line reassembly: for every byte sequence, cut into successive
  reads in any way, the lines handed to \<open>onLine\<close> are the ones emitted when the whole
  sequence arrives in a single read. It holds for \<open>streamResponseLines\<close> and for the
  legacy \<open>streamTextResponse\<close>, for every decoder and every decoder state.
\<close>

theorem C2_split_invariance:
  "streamResponseLines step d0 (Some (map Value chunks)) =
     streamResponseLines step d0 (Some [Value (concat chunks)])
   \<and> streamTextResponse step d0 (Some (map Value chunks)) =
     streamTextResponse step d0 (Some [Value (concat chunks)])"
  using read_loop_concat [of "[]" step d0 chunks]
  by (simp add: streamResponseLines_def streamTextResponse_def)

section \<open>Properties of the schedulers\<close>

lemma scheduleBuffer_null: "audioContextRef st = None \<Longrightarrow> scheduleBuffer now b st = st"
  by (simp add: scheduleBuffer_def)

lemma scheduleBuffer_ctx:
  "audioContextRef st \<noteq> None \<Longrightarrow> audioContextRef (scheduleBuffer now b st) \<noteq> None"
  by (auto simp: scheduleBuffer_def Let_def)

lemma scheduleBuffer_next:
  "audioContextRef st \<noteq> None \<Longrightarrow>
   nextStartTimeRef (scheduleBuffer now b st) =
     max (now + 0.05) (nextStartTimeRef st) + duration b - 0.008"
  by (auto simp: scheduleBuffer_def Let_def)

lemma scheduleBuffer_started:
  "audioContextRef st \<noteq> None \<Longrightarrow>
   started (scheduleBuffer now b st) = started st @ [max (now + 0.05) (nextStartTimeRef st)]"
  by (auto simp: scheduleBuffer_def started_def Let_def)

lemma schedule_all_snoc:
  "schedule_all (cs @ [(now, b)]) st = scheduleBuffer now b (schedule_all cs st)"
  by (induction cs arbitrary: st) auto

lemma schedule_all_ctx:
  "audioContextRef st \<noteq> None \<Longrightarrow> audioContextRef (schedule_all cs st) \<noteq> None"
proof (induction cs arbitrary: st)
  case Nil
  then show ?case by simp
next
  case (Cons c cs)
  obtain now b where c: "c = (now, b)" by (cases c)
  have "audioContextRef (scheduleBuffer now b st) \<noteq> None"
    using Cons.prems by (rule scheduleBuffer_ctx)
  then show ?case unfolding c by (simp add: Cons.IH)
qed

lemma schedule_all_length:
  "audioContextRef st \<noteq> None \<Longrightarrow>
   length (started (schedule_all cs st)) = length (started st) + length cs"
proof (induction cs rule: rev_induct)
  case Nil
  then show ?case by simp
next
  case (snoc c cs)
  obtain now b where c: "c = (now, b)" by (cases c)
  show ?case
    using snoc schedule_all_ctx [of st cs]
    by (simp add: c schedule_all_snoc scheduleBuffer_started)
qed

lemma schedule_all_next:
  "audioContextRef st \<noteq> None \<Longrightarrow> cs \<noteq> [] \<Longrightarrow>
   nextStartTimeRef (schedule_all cs st) =
     last (started (schedule_all cs st)) + duration (snd (last cs)) - 0.008
   \<and> fst (last cs) + 0.05 \<le> last (started (schedule_all cs st))"
proof (induction cs rule: rev_induct)
  case Nil
  then show ?case by simp
next
  case (snoc c cs)
  obtain now b where c: "c = (now, b)" by (cases c)
  have ctx: "audioContextRef (schedule_all cs st) \<noteq> None"
    using snoc.prems(1) by (rule schedule_all_ctx)
  show ?case
    by (simp add: c schedule_all_snoc scheduleBuffer_started [OF ctx] scheduleBuffer_next [OF ctx])
qed

lemma schedule_all_consecutive:
  assumes ctx: "audioContextRef st \<noteq> None"
    and i: "Suc i < length cs"
    and floor: "fst (cs ! Suc i) + 0.05 \<le>
      started (schedule_all cs st) ! (length (started st) + i) + duration (snd (cs ! i)) - 0.008"
  shows "started (schedule_all cs st) ! (length (started st) + Suc i) =
      started (schedule_all cs st) ! (length (started st) + i) + duration (snd (cs ! i)) - 0.008"
  using i floor
proof (induction cs rule: rev_induct)
  case Nil
  then show ?case by simp
next
  case (snoc c cs)
  obtain now b where c: "c = (now, b)" by (cases c)
  let ?n = "length (started st)"
  let ?S = "started (schedule_all cs st)"
  have ctx': "audioContextRef (schedule_all cs st) \<noteq> None"
    using ctx by (rule schedule_all_ctx)
  have len: "length ?S = ?n + length cs" using ctx by (rule schedule_all_length)
  have S': "started (schedule_all (cs @ [c]) st) =
      ?S @ [max (now + 0.05) (nextStartTimeRef (schedule_all cs st))]"
    by (simp add: c schedule_all_snoc scheduleBuffer_started [OF ctx'])
  have old: "started (schedule_all (cs @ [c]) st) ! k = ?S ! k" if "k < ?n + length cs" for k
    using that len by (simp add: S' nth_append)
  have new: "started (schedule_all (cs @ [c]) st) ! (?n + length cs) =
      max (now + 0.05) (nextStartTimeRef (schedule_all cs st))"
    using len by (simp add: S' nth_append)
  show ?case
  proof (cases "Suc i < length cs")
    case True
    have "?S ! (?n + Suc i) = ?S ! (?n + i) + duration (snd (cs ! i)) - 0.008"
    proof (rule snoc.IH [OF True])
      show "fst (cs ! Suc i) + 0.05 \<le> ?S ! (?n + i) + duration (snd (cs ! i)) - 0.008"
        using snoc.prems(2) True old [of "?n + i"] by (simp add: nth_append)
    qed
    then show ?thesis
      using True old [of "?n + i"] old [of "?n + Suc i"] by (simp add: nth_append)
  next
    case False
    with snoc.prems(1) have eq: "Suc i = length cs" by simp
    then have ne: "cs \<noteq> []" by auto
    have "?S \<noteq> []" using len ne by auto
    then have "last ?S = ?S ! (length ?S - 1)" by (rule last_conv_nth)
    also have "length ?S - 1 = ?n + i" using len eq by arith
    finally have lasts: "last ?S = ?S ! (?n + i)" .
    have "last cs = cs ! (length cs - 1)" using ne by (rule last_conv_nth)
    also have "length cs - 1 = i" using eq by arith
    finally have lastc: "last cs = cs ! i" .
    have nx: "nextStartTimeRef (schedule_all cs st) =
        ?S ! (?n + i) + duration (snd (cs ! i)) - 0.008"
      using schedule_all_next [OF ctx ne] lasts lastc by simp
    have i_lt: "i < length cs" using eq by arith
    have at_i: "(cs @ [c]) ! i = cs ! i" using i_lt by (simp add: nth_append)
    have at_Suc: "(cs @ [c]) ! Suc i = c" using eq by (simp add: nth_append)
    have old_i: "started (schedule_all (cs @ [c]) st) ! (?n + i) = ?S ! (?n + i)"
      using i_lt by (intro old) simp
    have new_i: "started (schedule_all (cs @ [c]) st) ! (?n + Suc i) =
        max (now + 0.05) (nextStartTimeRef (schedule_all cs st))"
      using new eq by simp
    have fl: "now + 0.05 \<le> ?S ! (?n + i) + duration (snd (cs ! i)) - 0.008"
      using snoc.prems(2) unfolding at_i at_Suc old_i by (simp add: c)
    show ?thesis unfolding at_i old_i new_i using fl nx by simp
  qed
qed

lemma legacy_scheduleBuffer_ctx:
  "audioCtx st \<noteq> None \<Longrightarrow> audioCtx (legacy_scheduleBuffer now b st) \<noteq> None"
  by (auto simp: legacy_scheduleBuffer_def Let_def)

lemma legacy_scheduleBuffer_next:
  "audioCtx st \<noteq> None \<Longrightarrow>
   nextStart (legacy_scheduleBuffer now b st) =
     max (nextStart st) (now + 0.05) + duration b"
  by (auto simp: legacy_scheduleBuffer_def Let_def)

lemma legacy_scheduleBuffer_started:
  "audioCtx st \<noteq> None \<Longrightarrow>
   legacy_started (legacy_scheduleBuffer now b st) = legacy_started st @ [max (nextStart st) (now + 0.05)]"
  by (auto simp: legacy_scheduleBuffer_def legacy_started_def Let_def)

lemma legacy_schedule_all_snoc:
  "legacy_schedule_all (cs @ [(now, b)]) st = legacy_scheduleBuffer now b (legacy_schedule_all cs st)"
  by (induction cs arbitrary: st) auto

lemma legacy_schedule_all_ctx:
  "audioCtx st \<noteq> None \<Longrightarrow> audioCtx (legacy_schedule_all cs st) \<noteq> None"
proof (induction cs arbitrary: st)
  case Nil
  then show ?case by simp
next
  case (Cons c cs)
  obtain now b where c: "c = (now, b)" by (cases c)
  have "audioCtx (legacy_scheduleBuffer now b st) \<noteq> None"
    using Cons.prems by (rule legacy_scheduleBuffer_ctx)
  then show ?case unfolding c by (simp add: Cons.IH)
qed

lemma legacy_schedule_all_length:
  "audioCtx st \<noteq> None \<Longrightarrow>
   length (legacy_started (legacy_schedule_all cs st)) = length (legacy_started st) + length cs"
proof (induction cs rule: rev_induct)
  case Nil
  then show ?case by simp
next
  case (snoc c cs)
  obtain now b where c: "c = (now, b)" by (cases c)
  show ?case
    using snoc legacy_schedule_all_ctx [of st cs]
    by (simp add: c legacy_schedule_all_snoc legacy_scheduleBuffer_started)
qed

lemma legacy_schedule_all_next:
  "audioCtx st \<noteq> None \<Longrightarrow> cs \<noteq> [] \<Longrightarrow>
   nextStart (legacy_schedule_all cs st) =
     last (legacy_started (legacy_schedule_all cs st)) + duration (snd (last cs))
   \<and> fst (last cs) + 0.05 \<le> last (legacy_started (legacy_schedule_all cs st))"
proof (induction cs rule: rev_induct)
  case Nil
  then show ?case by simp
next
  case (snoc c cs)
  obtain now b where c: "c = (now, b)" by (cases c)
  have ctx: "audioCtx (legacy_schedule_all cs st) \<noteq> None"
    using snoc.prems(1) by (rule legacy_schedule_all_ctx)
  show ?case
    by (simp add: c legacy_schedule_all_snoc legacy_scheduleBuffer_started [OF ctx] legacy_scheduleBuffer_next [OF ctx])
qed

lemma legacy_schedule_all_consecutive:
  assumes ctx: "audioCtx st \<noteq> None"
    and i: "Suc i < length cs"
    and floor: "fst (cs ! Suc i) + 0.05 \<le>
      legacy_started (legacy_schedule_all cs st) ! (length (legacy_started st) + i) + duration (snd (cs ! i))"
  shows "legacy_started (legacy_schedule_all cs st) ! (length (legacy_started st) + Suc i) =
      legacy_started (legacy_schedule_all cs st) ! (length (legacy_started st) + i) + duration (snd (cs ! i))"
  using i floor
proof (induction cs rule: rev_induct)
  case Nil
  then show ?case by simp
next
  case (snoc c cs)
  obtain now b where c: "c = (now, b)" by (cases c)
  let ?n = "length (legacy_started st)"
  let ?S = "legacy_started (legacy_schedule_all cs st)"
  have ctx': "audioCtx (legacy_schedule_all cs st) \<noteq> None"
    using ctx by (rule legacy_schedule_all_ctx)
  have len: "length ?S = ?n + length cs" using ctx by (rule legacy_schedule_all_length)
  have S': "legacy_started (legacy_schedule_all (cs @ [c]) st) =
      ?S @ [max (nextStart (legacy_schedule_all cs st)) (now + 0.05)]"
    by (simp add: c legacy_schedule_all_snoc legacy_scheduleBuffer_started [OF ctx'])
  have old: "legacy_started (legacy_schedule_all (cs @ [c]) st) ! k = ?S ! k" if "k < ?n + length cs" for k
    using that len by (simp add: S' nth_append)
  have new: "legacy_started (legacy_schedule_all (cs @ [c]) st) ! (?n + length cs) =
      max (nextStart (legacy_schedule_all cs st)) (now + 0.05)"
    using len by (simp add: S' nth_append)
  show ?case
  proof (cases "Suc i < length cs")
    case True
    have "?S ! (?n + Suc i) = ?S ! (?n + i) + duration (snd (cs ! i))"
    proof (rule snoc.IH [OF True])
      show "fst (cs ! Suc i) + 0.05 \<le> ?S ! (?n + i) + duration (snd (cs ! i))"
        using snoc.prems(2) True old [of "?n + i"] by (simp add: nth_append)
    qed
    then show ?thesis
      using True old [of "?n + i"] old [of "?n + Suc i"] by (simp add: nth_append)
  next
    case False
    with snoc.prems(1) have eq: "Suc i = length cs" by simp
    then have ne: "cs \<noteq> []" by auto
    have "?S \<noteq> []" using len ne by auto
    then have "last ?S = ?S ! (length ?S - 1)" by (rule last_conv_nth)
    also have "length ?S - 1 = ?n + i" using len eq by arith
    finally have lasts: "last ?S = ?S ! (?n + i)" .
    have "last cs = cs ! (length cs - 1)" using ne by (rule last_conv_nth)
    also have "length cs - 1 = i" using eq by arith
    finally have lastc: "last cs = cs ! i" .
    have nx: "nextStart (legacy_schedule_all cs st) =
        ?S ! (?n + i) + duration (snd (cs ! i))"
      using legacy_schedule_all_next [OF ctx ne] lasts lastc by simp
    have i_lt: "i < length cs" using eq by arith
    have at_i: "(cs @ [c]) ! i = cs ! i" using i_lt by (simp add: nth_append)
    have at_Suc: "(cs @ [c]) ! Suc i = c" using eq by (simp add: nth_append)
    have old_i: "legacy_started (legacy_schedule_all (cs @ [c]) st) ! (?n + i) = ?S ! (?n + i)"
      using i_lt by (intro old) simp
    have new_i: "legacy_started (legacy_schedule_all (cs @ [c]) st) ! (?n + Suc i) =
        max (nextStart (legacy_schedule_all cs st)) (now + 0.05)"
      using new eq by simp
    have fl: "now + 0.05 \<le> ?S ! (?n + i) + duration (snd (cs ! i))"
      using snoc.prems(2) unfolding at_i at_Suc old_i by (simp add: c)
    show ?thesis unfolding at_i old_i new_i using fl nx by simp
  qed
qed

lemmas eval_defs =
  initial_app_state_def initial_legacy_state_def ensureAudioContext_def
  legacy_ensureAudioContext_def scheduleBuffer_def legacy_scheduleBuffer_def
  started_def legacy_started_def safeAttack_def safeRelease_def Let_def

lemmas handler_defs =
  line_handler_def handle_line_def decode_settled_def scenario_platform_def js_def
  binary_to_bytes_def Math_round_def

text \<open>
  C1 (as amended). In the React scheduler, a chunk scheduled while the audio context exists
  starts at \<open>max (now + 0.05) nextStartTime\<close>, and \<open>nextStartTime\<close> becomes that start plus
  the chunk's duration minus the overlap of 0.008 s; so in every sequence of chunks, where
  the start computed for chunk \<open>i + 1\<close> is past the floor \<open>now + 0.05\<close>, it is the start of
  chunk \<open>i\<close> plus its duration minus 0.008. The legacy scheduler has the same start rule
  and no overlap: \<open>nextStart\<close> becomes the start plus the duration, and consecutive chunks
  abut.
\<close>

theorem C1_start_time_and_overlap:
  assumes "audioContextRef st \<noteq> None" and "audioCtx lst \<noteq> None"
  shows
    "started (scheduleBuffer now b st) = started st @ [max (now + 0.05) (nextStartTimeRef st)]
     \<and> nextStartTimeRef (scheduleBuffer now b st) =
           max (now + 0.05) (nextStartTimeRef st) + duration b - 0.008
     \<and> (Suc i < length cs
          \<and> fst (cs ! Suc i) + 0.05 \<le>
              started (schedule_all cs st) ! (length (started st) + i)
                + duration (snd (cs ! i)) - 0.008
          \<longrightarrow> started (schedule_all cs st) ! (length (started st) + Suc i) =
                started (schedule_all cs st) ! (length (started st) + i)
                  + duration (snd (cs ! i)) - 0.008)
     \<and> legacy_started (legacy_scheduleBuffer now b lst) =
           legacy_started lst @ [max (nextStart lst) (now + 0.05)]
     \<and> nextStart (legacy_scheduleBuffer now b lst) =
           max (nextStart lst) (now + 0.05) + duration b
     \<and> (Suc i < length cs
          \<and> fst (cs ! Suc i) + 0.05 \<le>
              legacy_started (legacy_schedule_all cs lst) ! (length (legacy_started lst) + i)
                + duration (snd (cs ! i))
          \<longrightarrow> legacy_started (legacy_schedule_all cs lst) ! (length (legacy_started lst) + Suc i) =
                legacy_started (legacy_schedule_all cs lst) ! (length (legacy_started lst) + i)
                  + duration (snd (cs ! i)))"
proof (intro conjI impI)
  show "started (scheduleBuffer now b st) = started st @ [max (now + 0.05) (nextStartTimeRef st)]"
    using assms(1) by (rule scheduleBuffer_started)
  show "nextStartTimeRef (scheduleBuffer now b st) =
      max (now + 0.05) (nextStartTimeRef st) + duration b - 0.008"
    using assms(1) by (rule scheduleBuffer_next)
  show "legacy_started (legacy_scheduleBuffer now b lst) =
      legacy_started lst @ [max (nextStart lst) (now + 0.05)]"
    using assms(2) by (rule legacy_scheduleBuffer_started)
  show "nextStart (legacy_scheduleBuffer now b lst) =
      max (nextStart lst) (now + 0.05) + duration b"
    using assms(2) by (rule legacy_scheduleBuffer_next)
next
  assume "Suc i < length cs
      \<and> fst (cs ! Suc i) + 0.05 \<le>
          started (schedule_all cs st) ! (length (started st) + i)
            + duration (snd (cs ! i)) - 0.008"
  then show "started (schedule_all cs st) ! (length (started st) + Suc i) =
      started (schedule_all cs st) ! (length (started st) + i)
        + duration (snd (cs ! i)) - 0.008"
    using schedule_all_consecutive [OF assms(1), of i cs] by blast
next
  assume "Suc i < length cs
      \<and> fst (cs ! Suc i) + 0.05 \<le>
          legacy_started (legacy_schedule_all cs lst) ! (length (legacy_started lst) + i)
            + duration (snd (cs ! i))"
  then show "legacy_started (legacy_schedule_all cs lst) ! (length (legacy_started lst) + Suc i) =
      legacy_started (legacy_schedule_all cs lst) ! (length (legacy_started lst) + i)
        + duration (snd (cs ! i))"
    using legacy_schedule_all_consecutive [OF assms(2), of i cs] by blast
qed

text \<open>The theorem at two clips of half a second, the second read 0.1 s later.\<close>

theorem C1_start_time_and_overlap_witness:
  "audioContextRef (ensureAudioContext Running initial_app_state) \<noteq> None
   \<and> audioCtx (legacy_ensureAudioContext Running initial_legacy_state) \<noteq> None
   \<and> started (schedule_all [(0, \<lparr>duration = 1 / 2\<rparr>), (1 / 10, \<lparr>duration = 1 / 2\<rparr>)]
        (ensureAudioContext Running initial_app_state)) = [0.05, 0.542]
   \<and> legacy_started (legacy_schedule_all [(0, \<lparr>duration = 1 / 2\<rparr>), (1 / 10, \<lparr>duration = 1 / 2\<rparr>)]
        (legacy_ensureAudioContext Running initial_legacy_state)) = [0.05, 0.55]
   \<and> nextStartTimeRef (scheduleBuffer 0 \<lparr>duration = 1 / 2\<rparr>
        (ensureAudioContext Running initial_app_state)) = 0.05 + 1 / 2 - 0.008
   \<and> nextStart (legacy_scheduleBuffer 0 \<lparr>duration = 1 / 2\<rparr>
        (legacy_ensureAudioContext Running initial_legacy_state)) = 0.05 + 1 / 2"
  using C1_start_time_and_overlap
    [of "ensureAudioContext Running initial_app_state"
        "legacy_ensureAudioContext Running initial_legacy_state"
        0 "\<lparr>duration = 1 / 2\<rparr>" 0
        "[(0, \<lparr>duration = 1 / 2\<rparr>), (1 / 10, \<lparr>duration = 1 / 2\<rparr>)]"]
  by (simp add: eval_defs)


text \<open>
  C1 as stated fails on the legacy scheduler: after a clip of half a second scheduled at
  clock 0 the next start is 0.55, not 0.55 - 0.008, and a second clip starts there.
\<close>

theorem C1_legacy_no_overlap_counterexample:
  "nextStart (legacy_scheduleBuffer 0 \<lparr>duration = 1 / 2\<rparr>
      (legacy_ensureAudioContext Running initial_legacy_state))
     \<noteq> max (0 + 0.05) (nextStart (legacy_ensureAudioContext Running initial_legacy_state))
         + duration \<lparr>duration = 1 / 2\<rparr> - 0.008
   \<and> legacy_started (legacy_schedule_all
         [(0, \<lparr>duration = 1 / 2\<rparr>), (1 / 10, \<lparr>duration = 1 / 2\<rparr>)]
         (legacy_ensureAudioContext Running initial_legacy_state)) = [0.05, 0.05 + 1 / 2]"
  by (simp add: eval_defs)

section \<open>Properties of rounding to doubles\<close>




























section \<open>The playback schedule under rounding\<close>





lemma line_handler_ctx:
  "audioContextRef (snd (snd (line_handler P clk sess line st))) = audioContextRef st"
  by (auto simp: line_handler_def Let_def split: option.splits sum.splits prod.splits)











section \<open>The gain envelope\<close>

lemma last_source_scheduleBuffer:
  assumes "audioContextRef st \<noteq> None"
  shows "last_source (scheduleBuffer now b st) =
      Some \<lparr>start_time = max (now + 0.05) (nextStartTimeRef st),
            source_buffer = b,
            gain_events =
              [SetValueAtTime 0 (max (now + 0.05) (nextStartTimeRef st)),
               LinearRampToValueAtTime 1
                 (max (now + 0.05) (nextStartTimeRef st) + safeAttack (duration b)),
               SetValueAtTime 1
                 (max (max (now + 0.05) (nextStartTimeRef st) + safeAttack (duration b))
                      (max (now + 0.05) (nextStartTimeRef st) + duration b
                         - safeRelease (duration b))),
               LinearRampToValueAtTime 0
                 (max (now + 0.05) (nextStartTimeRef st) + duration b)]\<rparr>"
  using assms by (auto simp: last_source_def scheduleBuffer_def Let_def)

lemma last_envelope_scheduleBuffer:
  assumes "audioContextRef st \<noteq> None"
  shows "last_envelope (scheduleBuffer now b st) =
      Some (safeAttack (duration b),
            max 0 (duration b - safeAttack (duration b) - safeRelease (duration b)),
            min (safeRelease (duration b)) (duration b - safeAttack (duration b)))"
  unfolding last_envelope_def last_source_scheduleBuffer [OF assms]
  by (simp add: safeAttack_def safeRelease_def max_def min_def)

text \<open>
  C10 (as amended). For every chunk scheduled, of duration \<open>d\<close>, the gain is 0 at the start,
  ramps linearly to 1 over \<open>a = min 0.01 (max 0.002 (d / 4))\<close>, is held at 1 until the later
  of the end of that ramp and \<open>a\<close> before the end of the chunk, and ramps to 0 at the end of
  the chunk. So the ramp up lasts \<open>a\<close>, the hold \<open>max 0 (d - 2 a)\<close> and the ramp down
  \<open>min a (d - a)\<close>: for \<open>d\<close> of at least 8 ms both ramps last \<open>min 0.01 (d / 4)\<close>, a quarter of
  the chunk at most, with the hold between them; from 4 ms to 8 ms both last 2 ms, more
  than a quarter, with a hold of \<open>d - 0.004\<close>; below 4 ms the ramp up lasts 2 ms, nothing is
  held and the ramp down is left \<open>d - 0.002\<close>, negative below 2 ms, where the ramp to 0 is
  timed before the end of the ramp to 1.
\<close>

theorem C10_fade_durations:
  assumes "audioContextRef st \<noteq> None"
  shows
    "last_source (scheduleBuffer now b st) =
      Some \<lparr>start_time = max (now + 0.05) (nextStartTimeRef st),
            source_buffer = b,
            gain_events =
              [SetValueAtTime 0 (max (now + 0.05) (nextStartTimeRef st)),
               LinearRampToValueAtTime 1
                 (max (now + 0.05) (nextStartTimeRef st) + safeAttack (duration b)),
               SetValueAtTime 1
                 (max (max (now + 0.05) (nextStartTimeRef st) + safeAttack (duration b))
                      (max (now + 0.05) (nextStartTimeRef st) + duration b
                         - safeRelease (duration b))),
               LinearRampToValueAtTime 0
                 (max (now + 0.05) (nextStartTimeRef st) + duration b)]\<rparr>
     \<and> safeAttack (duration b) = min 0.01 (max 0.002 (duration b / 4))
     \<and> safeRelease (duration b) = min 0.01 (max 0.002 (duration b / 4))
     \<and> last_envelope (scheduleBuffer now b st) =
         Some (safeAttack (duration b),
               max 0 (duration b - 2 * safeAttack (duration b)),
               min (safeAttack (duration b)) (duration b - safeAttack (duration b)))
     \<and> (0.008 \<le> duration b \<longrightarrow>
          last_envelope (scheduleBuffer now b st) =
            Some (min 0.01 (duration b / 4),
                  duration b - 2 * min 0.01 (duration b / 4),
                  min 0.01 (duration b / 4)))
     \<and> (0.004 \<le> duration b \<and> duration b < 0.008 \<longrightarrow>
          last_envelope (scheduleBuffer now b st) = Some (0.002, duration b - 0.004, 0.002))
     \<and> (duration b < 0.004 \<longrightarrow>
          last_envelope (scheduleBuffer now b st) = Some (0.002, 0, duration b - 0.002))"
proof -
  note env = last_envelope_scheduleBuffer [OF assms, of now b]
  have same: "safeRelease (duration b) = safeAttack (duration b)"
    by (simp add: safeAttack_def safeRelease_def)
  have long: "safeAttack (duration b) = min 0.01 (duration b / 4)" if "0.008 \<le> duration b"
    using that by (simp add: safeAttack_def)
  have short: "safeAttack (duration b) = 0.002" if "duration b < 0.008"
    using that by (simp add: safeAttack_def)
  have c0: "last_envelope (scheduleBuffer now b st) =
      Some (safeAttack (duration b),
            max 0 (duration b - 2 * safeAttack (duration b)),
            min (safeAttack (duration b)) (duration b - safeAttack (duration b)))"
    unfolding env same by (simp add: algebra_simps)
  have c1: "last_envelope (scheduleBuffer now b st) =
      Some (min 0.01 (duration b / 4),
            duration b - 2 * min 0.01 (duration b / 4),
            min 0.01 (duration b / 4))" if "0.008 \<le> duration b"
    unfolding c0 long [OF that] using that by (simp add: max_def min_def)
  have c2: "last_envelope (scheduleBuffer now b st) = Some (0.002, duration b - 0.004, 0.002)"
    if "0.004 \<le> duration b \<and> duration b < 0.008"
  proof -
    have "duration b < 0.008" using that by simp
    then have "safeAttack (duration b) = 0.002" by (rule short)
    then show ?thesis unfolding c0 using that by (simp add: max_def min_def)
  qed
  have c3: "last_envelope (scheduleBuffer now b st) = Some (0.002, 0, duration b - 0.002)"
    if "duration b < 0.004"
  proof -
    have "duration b < 0.008" using that by simp
    then have "safeAttack (duration b) = 0.002" by (rule short)
    then show ?thesis unfolding c0 using that by (simp add: max_def min_def)
  qed
  show ?thesis
    using last_source_scheduleBuffer [OF assms, of now b] c0 c1 c2 c3
    by (simp add: safeAttack_def safeRelease_def)
qed

text \<open>
  The theorem at chunks of 500, 20, 6, 3 and 1 ms: ramp up, hold and ramp down last
  10, 480, 10 ms; 5, 10, 5 ms; 2, 2, 2 ms; 2, 0, 1 ms; and 2, 0, -1 ms.
\<close>

theorem C10_fade_durations_witness:
  "audioContextRef (ensureAudioContext Running initial_app_state) \<noteq> None
   \<and> last_envelope (scheduleBuffer 0 \<lparr>duration = 1 / 2\<rparr>
        (ensureAudioContext Running initial_app_state)) = Some (0.01, 0.48, 0.01)
   \<and> last_envelope (scheduleBuffer 0 \<lparr>duration = 0.02\<rparr>
        (ensureAudioContext Running initial_app_state)) = Some (0.005, 0.01, 0.005)
   \<and> last_envelope (scheduleBuffer 0 \<lparr>duration = 0.006\<rparr>
        (ensureAudioContext Running initial_app_state)) = Some (0.002, 0.002, 0.002)
   \<and> last_envelope (scheduleBuffer 0 \<lparr>duration = 0.003\<rparr>
        (ensureAudioContext Running initial_app_state)) = Some (0.002, 0, 0.001)
   \<and> last_envelope (scheduleBuffer 0 \<lparr>duration = 0.001\<rparr>
        (ensureAudioContext Running initial_app_state)) = Some (0.002, 0, - 0.001)"
  using C10_fade_durations [of "ensureAudioContext Running initial_app_state" 0
      "\<lparr>duration = 1 / 2\<rparr>"]
    C10_fade_durations [of "ensureAudioContext Running initial_app_state" 0
      "\<lparr>duration = 0.02\<rparr>"]
    C10_fade_durations [of "ensureAudioContext Running initial_app_state" 0
      "\<lparr>duration = 0.006\<rparr>"]
    C10_fade_durations [of "ensureAudioContext Running initial_app_state" 0
      "\<lparr>duration = 0.003\<rparr>"]
    C10_fade_durations [of "ensureAudioContext Running initial_app_state" 0
      "\<lparr>duration = 0.001\<rparr>"]
  by (simp add: ensureAudioContext_def initial_app_state_def Let_def)

text \<open>
  C10 as stated fails for a chunk of 4 ms: both fades last 2 ms, not the quarter of the
  duration (1 ms), and the ramp up ends where the chunk is half over.
\<close>

theorem C10_short_chunk_counterexample:
  "safeAttack (duration \<lparr>duration = 0.004\<rparr>) \<noteq> min 0.01 (duration \<lparr>duration = 0.004\<rparr> / 4)
   \<and> safeRelease (duration \<lparr>duration = 0.004\<rparr>) \<noteq> min 0.01 (duration \<lparr>duration = 0.004\<rparr> / 4)
   \<and> audioContextRef (scheduleBuffer 0 \<lparr>duration = 0.004\<rparr>
        (ensureAudioContext Running initial_app_state)) =
      Some \<lparr>ctx_state = Running, scheduled =
        [\<lparr>start_time = 0.05, source_buffer = \<lparr>duration = 0.004\<rparr>,
          gain_events =
            [SetValueAtTime 0 0.05, LinearRampToValueAtTime 1 0.052,
             SetValueAtTime 1 0.052, LinearRampToValueAtTime 0 0.054]\<rparr>]\<rparr>"
  by (simp add: eval_defs)

section \<open>Properties of the session life cycle\<close>

lemma stopInference_ctx: "audioContextRef (stopInference st) = None"
  by (simp add: stopInference_def resetAudio_def Let_def split: option.splits)

lemma stopInference_next: "nextStartTimeRef (stopInference st) = 0"
  by (simp add: stopInference_def resetAudio_def Let_def split: option.splits)

lemma schedule_all_null: "audioContextRef st = None \<Longrightarrow> schedule_all cs st = st"
  by (induction cs arbitrary: st) (auto simp: scheduleBuffer_null)

lemma startInference_fresh:
  assumes "profile_name \<noteq> []" and "inferenceText \<noteq> []" and "audioContextRef st = None"
  shows "audioContextRef (snd (startInference init clk profile_name inferenceText st)) =
           Some \<lparr>ctx_state = (if init = Suspended then Running else init), scheduled = []\<rparr>
     \<and> nextStartTimeRef (snd (startInference init clk profile_name inferenceText st)) =
           currentTime clk"
  using assms
  by (simp add: startInference_def ensureAudioContext_def Let_def split: option.splits)

lemma decode_settled_started:
  assumes "audioContextRef st \<noteq> None"
  shows "started (snd (decode_settled clk idx (Some b) st)) =
           started st @ [max (currentTime clk + 0.05) (nextStartTimeRef st)]
     \<and> nextStartTimeRef (snd (decode_settled clk idx (Some b) st)) =
           max (currentTime clk + 0.05) (nextStartTimeRef st) + duration b - 0.008
     \<and> audioContextRef (snd (decode_settled clk idx (Some b) st)) \<noteq> None"
  using scheduleBuffer_started [OF assms, of "currentTime clk" b]
    scheduleBuffer_next [OF assms, of "currentTime clk" b]
    scheduleBuffer_ctx [OF assms, of "currentTime clk" b]
  by (simp add: decode_settled_def Let_def started_def)

text \<open>
  Once \<open>stopInference\<close> has returned, and until a later \<open>startInference\<close> creates a new audio
  context, the scheduling step does nothing, for any buffer and any number of buffers.
\<close>

lemma no_scheduling_while_stopped:
  "audioContextRef (stopInference st) = None
   \<and> scheduleBuffer now b (stopInference st) = stopInference st
   \<and> schedule_all cs (stopInference st) = stopInference st
   \<and> audioContextRef (snd (decode_settled clk idx result (stopInference st))) = None
   \<and> nextStartTimeRef (snd (decode_settled clk idx result (stopInference st))) = 0
   \<and> started (snd (decode_settled clk idx result (stopInference st))) = []"
proof -
  have null: "audioContextRef (stopInference st) = None" by (rule stopInference_ctx)
  have sb: "scheduleBuffer t x (stopInference st) = stopInference st" for t x
    using null by (rule scheduleBuffer_null)
  have ds: "audioContextRef (snd (decode_settled clk idx result (stopInference st))) = None
      \<and> nextStartTimeRef (snd (decode_settled clk idx result (stopInference st))) = 0"
    by (cases result) (simp_all add: decode_settled_def sb null stopInference_next Let_def)
  show ?thesis
    using null sb [of now b] schedule_all_null [OF null, of cs] ds
    by (simp add: started_def)
qed

text \<open>
  C5. After \<open>stopInference\<close> the scheduling step is a no-op only while the context ref is
  null. A decode the stopped session had issued, settling after the next \<open>startInference\<close>
  (name and text given), finds the new session's context: the stopped session's chunk is
  started there, at \<open>max\<close> of its clock plus 0.05 and the clock read at the restart, and
  \<open>nextStartTime\<close> advances past it.
\<close>

theorem C5_late_decode_is_scheduled_after_restart:
  assumes "profile_name \<noteq> []" and "inferenceText \<noteq> []"
  shows
    "scheduleBuffer now b (stopInference st) = stopInference st
     \<and> started (snd (decode_settled clk' idx (Some b) (stopInference st))) = []
     \<and> started (snd (decode_settled clk' idx (Some b)
          (snd (startInference init clk profile_name inferenceText (stopInference st))))) =
         [max (currentTime clk' + 0.05) (currentTime clk)]
     \<and> nextStartTimeRef (snd (decode_settled clk' idx (Some b)
          (snd (startInference init clk profile_name inferenceText (stopInference st))))) =
         max (currentTime clk' + 0.05) (currentTime clk) + duration b - 0.008"
proof -
  let ?s = "snd (startInference init clk profile_name inferenceText (stopInference st))"
  have fresh: "audioContextRef ?s =
        Some \<lparr>ctx_state = (if init = Suspended then Running else init), scheduled = []\<rparr>
      \<and> nextStartTimeRef ?s = currentTime clk"
    using assms stopInference_ctx [of st] by (rule startInference_fresh)
  then have ctx: "audioContextRef ?s \<noteq> None" by simp
  have st: "started ?s = []" using fresh by (simp add: started_def)
  have null: "audioContextRef (stopInference st) = None" by (rule stopInference_ctx)
  have noop: "scheduleBuffer t x (stopInference st) = stopInference st" for t x
    using null by (rule scheduleBuffer_null)
  have none: "started (snd (decode_settled clk' idx (Some b) (stopInference st))) = []"
    using null by (simp add: decode_settled_def noop started_def Let_def)
  show ?thesis
    using decode_settled_started [OF ctx, of clk' idx b] fresh st noop [of now b] none
    by simp
qed

text \<open>
  The theorem at a session stopped and restarted at clock 0, and a clip of half a second
  of the stopped session whose decode settles at clock 0.1: it starts at 0.15 and
  \<open>nextStartTime\<close> becomes 0.642.
\<close>

theorem C5_late_decode_is_scheduled_after_restart_witness:
  "js ''alice'' \<noteq> [] \<and> js ''Hello'' \<noteq> []
   \<and> started (snd (decode_settled \<lparr>currentTime = 1 / 10, performance_now = 2100, Date_now = 6000\<rparr>
      (Some (JNumber 3)) (Some \<lparr>duration = 1 / 2\<rparr>)
      (snd (startInference Running \<lparr>currentTime = 0, performance_now = 2000, Date_now = 5900\<rparr>
             (js ''alice'') (js ''Hello'')
             (stopInference
                (snd (startInference Running
                        \<lparr>currentTime = 0, performance_now = 100, Date_now = 4000\<rparr>
                        (js ''alice'') (js ''Hello'') initial_app_state))))))) = [0.15]
   \<and> nextStartTimeRef
       (snd (decode_settled \<lparr>currentTime = 1 / 10, performance_now = 2100, Date_now = 6000\<rparr>
      (Some (JNumber 3)) (Some \<lparr>duration = 1 / 2\<rparr>)
      (snd (startInference Running \<lparr>currentTime = 0, performance_now = 2000, Date_now = 5900\<rparr>
             (js ''alice'') (js ''Hello'')
             (stopInference
                (snd (startInference Running
                        \<lparr>currentTime = 0, performance_now = 100, Date_now = 4000\<rparr>
                        (js ''alice'') (js ''Hello'') initial_app_state))))))) = 0.642"
  using C5_late_decode_is_scheduled_after_restart [of "js ''alice''" "js ''Hello''" 0
      "\<lparr>duration = 1 / 2\<rparr>"
      "snd (startInference Running \<lparr>currentTime = 0, performance_now = 100, Date_now = 4000\<rparr>
         (js ''alice'') (js ''Hello'') initial_app_state)"
      "\<lparr>currentTime = 1 / 10, performance_now = 2100, Date_now = 6000\<rparr>" "Some (JNumber 3)"
      Running "\<lparr>currentTime = 0, performance_now = 2000, Date_now = 5900\<rparr>"]
  by (simp add: js_def)

text \<open>
  C7. \<open>stopInference\<close> sets \<open>nextStartTime\<close> to zero and discards the audio context, and a
  chunk that is the first to be scheduled after the next \<open>startInference\<close> starts at \<open>max\<close> of
  its clock plus 0.05 and the clock read at that start. But where a decode left over from
  the session before the stop settles first, the new session's own first chunk starts no
  earlier than the end of the left-over clip minus 0.008: its start depends on the
  duration of a clip of the first session.
\<close>

theorem C7_first_start_depends_on_leftover_decode:
  assumes "profile_name \<noteq> []" and "inferenceText \<noteq> []"
  shows
    "nextStartTimeRef (stopInference st) = 0
     \<and> audioContextRef (stopInference st) = None
     \<and> started (snd (decode_settled clk2 idx2 (Some b2)
          (snd (startInference init clk profile_name inferenceText (stopInference st))))) =
         [max (currentTime clk2 + 0.05) (currentTime clk)]
     \<and> started (snd (decode_settled clk2 idx2 (Some b2)
          (snd (decode_settled clk1 idx1 (Some b1)
             (snd (startInference init clk profile_name inferenceText (stopInference st))))))) =
         [max (currentTime clk1 + 0.05) (currentTime clk),
          max (currentTime clk2 + 0.05)
            (max (currentTime clk1 + 0.05) (currentTime clk) + duration b1 - 0.008)]"
proof -
  let ?s = "snd (startInference init clk profile_name inferenceText (stopInference st))"
  let ?l = "snd (decode_settled clk1 idx1 (Some b1) ?s)"
  have fresh: "audioContextRef ?s =
        Some \<lparr>ctx_state = (if init = Suspended then Running else init), scheduled = []\<rparr>
      \<and> nextStartTimeRef ?s = currentTime clk"
    using assms stopInference_ctx [of st] by (rule startInference_fresh)
  then have ctx: "audioContextRef ?s \<noteq> None" by simp
  have st: "started ?s = []" using fresh by (simp add: started_def)
  have own: "started (snd (decode_settled clk2 idx2 (Some b2) ?s)) =
      [max (currentTime clk2 + 0.05) (currentTime clk)]"
    using decode_settled_started [OF ctx, of clk2 idx2 b2] fresh st by simp
  have late: "started ?l = [max (currentTime clk1 + 0.05) (currentTime clk)]
      \<and> nextStartTimeRef ?l = max (currentTime clk1 + 0.05) (currentTime clk) + duration b1 - 0.008
      \<and> audioContextRef ?l \<noteq> None"
    using decode_settled_started [OF ctx, of clk1 idx1 b1] fresh st by simp
  then have ctx': "audioContextRef ?l \<noteq> None" by simp
  have both: "started (snd (decode_settled clk2 idx2 (Some b2) ?l)) =
      [max (currentTime clk1 + 0.05) (currentTime clk),
       max (currentTime clk2 + 0.05)
         (max (currentTime clk1 + 0.05) (currentTime clk) + duration b1 - 0.008)]"
    using decode_settled_started [OF ctx', of clk2 idx2 b2] late by simp
  show ?thesis
    using own both by (simp add: stopInference_next stopInference_ctx)
qed

text \<open>
  The theorem at a restart at clock 0 and a first chunk of the new session scheduled at
  clock 0.2: alone it starts at 0.25; after a left-over clip of half a second settled at
  clock 0.1 it starts at 0.642, and after one of ten seconds at 10.142.
\<close>

theorem C7_first_start_depends_on_leftover_decode_witness:
  "js ''alice'' \<noteq> [] \<and> js ''Hello'' \<noteq> []
   \<and> started (snd (decode_settled \<lparr>currentTime = 2 / 10, performance_now = 2200, Date_now = 6100\<rparr>
        (Some (JNumber 0)) (Some \<lparr>duration = 1 / 2\<rparr>)
        (snd (startInference Running \<lparr>currentTime = 0, performance_now = 2000, Date_now = 5900\<rparr>
               (js ''alice'') (js ''Hello'')
               (stopInference
                  (snd (startInference Running \<lparr>currentTime = 0, performance_now = 100, Date_now = 4000\<rparr>
                     (js ''alice'') (js ''Hello'') initial_app_state))))))) = [0.25]
   \<and> started (snd (decode_settled \<lparr>currentTime = 2 / 10, performance_now = 2200, Date_now = 6100\<rparr>
        (Some (JNumber 0)) (Some \<lparr>duration = 1 / 2\<rparr>)
        (snd (decode_settled \<lparr>currentTime = 1 / 10, performance_now = 2100, Date_now = 6000\<rparr>
           (Some (JNumber 3)) (Some \<lparr>duration = 1 / 2\<rparr>)
           (snd (startInference Running \<lparr>currentTime = 0, performance_now = 2000, Date_now = 5900\<rparr>
               (js ''alice'') (js ''Hello'')
               (stopInference
                  (snd (startInference Running \<lparr>currentTime = 0, performance_now = 100, Date_now = 4000\<rparr>
                     (js ''alice'') (js ''Hello'') initial_app_state))))))))) = [0.15, 0.642]
   \<and> started (snd (decode_settled \<lparr>currentTime = 2 / 10, performance_now = 2200, Date_now = 6100\<rparr>
        (Some (JNumber 0)) (Some \<lparr>duration = 1 / 2\<rparr>)
        (snd (decode_settled \<lparr>currentTime = 1 / 10, performance_now = 2100, Date_now = 6000\<rparr>
           (Some (JNumber 3)) (Some \<lparr>duration = 10\<rparr>)
           (snd (startInference Running \<lparr>currentTime = 0, performance_now = 2000, Date_now = 5900\<rparr>
               (js ''alice'') (js ''Hello'')
               (stopInference
                  (snd (startInference Running \<lparr>currentTime = 0, performance_now = 100, Date_now = 4000\<rparr>
                     (js ''alice'') (js ''Hello'') initial_app_state))))))))) = [0.15, 10.142]"
  using C7_first_start_depends_on_leftover_decode [of "js ''alice''" "js ''Hello''"
      "snd (startInference Running \<lparr>currentTime = 0, performance_now = 100, Date_now = 4000\<rparr>
         (js ''alice'') (js ''Hello'') initial_app_state)"
      "\<lparr>currentTime = 2 / 10, performance_now = 2200, Date_now = 6100\<rparr>" "Some (JNumber 0)"
      "\<lparr>duration = 1 / 2\<rparr>" Running
      "\<lparr>currentTime = 0, performance_now = 2000, Date_now = 5900\<rparr>"
      "\<lparr>currentTime = 1 / 10, performance_now = 2100, Date_now = 6000\<rparr>" "Some (JNumber 3)"
      "\<lparr>duration = 1 / 2\<rparr>"]
    C7_first_start_depends_on_leftover_decode [of "js ''alice''" "js ''Hello''"
      "snd (startInference Running \<lparr>currentTime = 0, performance_now = 100, Date_now = 4000\<rparr>
         (js ''alice'') (js ''Hello'') initial_app_state)"
      "\<lparr>currentTime = 2 / 10, performance_now = 2200, Date_now = 6100\<rparr>" "Some (JNumber 0)"
      "\<lparr>duration = 1 / 2\<rparr>" Running
      "\<lparr>currentTime = 0, performance_now = 2000, Date_now = 5900\<rparr>"
      "\<lparr>currentTime = 1 / 10, performance_now = 2100, Date_now = 6000\<rparr>" "Some (JNumber 3)"
      "\<lparr>duration = 10\<rparr>"]
  by (simp add: js_def)

section \<open>Properties of the line handlers\<close>

lemma nullish_or_value: "v \<noteq> JNull \<Longrightarrow> nullish_or (Some v) d = v"
  by (cases v) simp_all

lemma line_handler_done:
  assumes "JSON_parse P line = Some (JObject kvs)"
    and "map_of kvs (js ''event'') = Some (JString (js ''done''))"
  shows "line_handler P clk sess line st =
      (Fulfilled, sess,
       st\<lparr>latency :=
             (case latency st of
                None \<Rightarrow> None
              | Some prev \<Rightarrow>
                  Some (prev\<lparr>total := nullish_or (map_of kvs (js ''inference_ms''))
                    (JNumber (of_int (Math_round (performance_now clk - startTime sess))))\<rparr>)),
           inferenceStatus := StatusDone\<rparr>)"
  using assms by (simp add: line_handler_def Let_def)

lemma legacy_line_handler_done:
  assumes "JSON_parse P line = Some (JObject kvs)"
    and "map_of kvs (js ''event'') = Some (JString (js ''done''))"
  shows "legacy_line_handler P clk sess line st =
      (Fulfilled, sess,
       st\<lparr>streamTiming := Total (Math_round (performance_now clk - start sess)),
           streamStatus := DoneText\<rparr>)"
  using assms by (simp add: legacy_line_handler_def)

text \<open>
  C8 (as amended). When a record with \<open>event\<close> \<open>done\<close> is handled, the React handler sets
  the inference step to \<open>done\<close>; when \<open>latency\<close> is set (an audio record was seen before), its
  \<open>total\<close> becomes \<open>inference_ms\<close> if that field is there and not null, and the rounded
  elapsed time since the start of the session otherwise; when \<open>latency\<close> is not set it stays
  so, and no total is recorded. The legacy handler shows the rounded elapsed time whatever
  \<open>inference_ms\<close> says, and the status \<open>Done.\<close>
\<close>

theorem C8_done_records_total:
  assumes "JSON_parse P line = Some (JObject kvs)"
    and "map_of kvs (js ''event'') = Some (JString (js ''done''))"
  shows "fst (line_handler P clk sess line st) = Fulfilled
     \<and> inferenceStatus (snd (snd (line_handler P clk sess line st))) = StatusDone
     \<and> (latency st = None \<longrightarrow> latency (snd (snd (line_handler P clk sess line st))) = None)
     \<and> (\<forall>prev v. latency st = Some prev \<and> map_of kvs (js ''inference_ms'') = Some v \<and> v \<noteq> JNull
          \<longrightarrow> latency (snd (snd (line_handler P clk sess line st))) = Some (prev\<lparr>total := v\<rparr>))
     \<and> (\<forall>prev. latency st = Some prev
            \<and> (map_of kvs (js ''inference_ms'') = None
                \<or> map_of kvs (js ''inference_ms'') = Some JNull)
          \<longrightarrow> latency (snd (snd (line_handler P clk sess line st))) =
                Some (prev\<lparr>total :=
                  JNumber (of_int (Math_round (performance_now clk - startTime sess)))\<rparr>))
     \<and> legacy_line_handler P clk lsess line lst =
          (Fulfilled, lsess,
           lst\<lparr>streamTiming := Total (Math_round (performance_now clk - start lsess)),
                streamStatus := DoneText\<rparr>)"
  unfolding line_handler_done [OF assms] legacy_line_handler_done [OF assms]
  by (auto simp: nullish_or_value)

text \<open>
  The theorem at the record \<open>{"event":"done","inference_ms":900}\<close> handled one second
  after the start, with a first-audio latency of 40 ms recorded: the total is 900.
\<close>

theorem C8_done_records_total_witness:
  \<open>JSON_parse scenario_platform (js ''{"event":"done","inference_ms":900}'') =
      Some (JObject [(js ''event'', JString (js ''done'')), (js ''inference_ms'', JNumber 900)])
   \<and> map_of [(js ''event'', JString (js ''done'')), (js ''inference_ms'', JNumber 900)]
        (js ''event'') = Some (JString (js ''done''))
   \<and> latency (snd (snd (line_handler scenario_platform
        \<lparr>currentTime = 1, performance_now = 1100, Date_now = 5000\<rparr>
        \<lparr>controller = 0, startTime = 100, firstChunk = False\<rparr>
        (js ''{"event":"done","inference_ms":900}'')
        (initial_app_state\<lparr>latency := Some \<lparr>ttfa = 40, total = JNumber 0\<rparr>\<rparr>)))) =
      Some \<lparr>ttfa = 40, total = JNumber 900\<rparr>
   \<and> inferenceStatus (snd (snd (line_handler scenario_platform
        \<lparr>currentTime = 1, performance_now = 1100, Date_now = 5000\<rparr>
        \<lparr>controller = 0, startTime = 100, firstChunk = False\<rparr>
        (js ''{"event":"done","inference_ms":900}'')
        (initial_app_state\<lparr>latency := Some \<lparr>ttfa = 40, total = JNumber 0\<rparr>\<rparr>)))) = StatusDone\<close>
  using C8_done_records_total [of scenario_platform
      \<open>js ''{"event":"done","inference_ms":900}''\<close>
      "[(js ''event'', JString (js ''done'')), (js ''inference_ms'', JNumber 900)]"
      "\<lparr>currentTime = 1, performance_now = 1100, Date_now = 5000\<rparr>"
      "\<lparr>controller = 0, startTime = 100, firstChunk = False\<rparr>"
      "initial_app_state\<lparr>latency := Some \<lparr>ttfa = 40, total = JNumber 0\<rparr>\<rparr>"]
  by (simp add: scenario_platform_def js_def initial_app_state_def)

text \<open>
  C8 as stated fails where the same record is the first a session sees: \<open>latency\<close> stays
  null, so the 900 ms are not recorded. The legacy handler shows the 1000 ms measured.
\<close>

theorem C8_done_before_audio_counterexample:
  \<open>latency (snd (snd (line_handler scenario_platform
        \<lparr>currentTime = 1, performance_now = 1100, Date_now = 5000\<rparr>
        \<lparr>controller = 0, startTime = 100, firstChunk = True\<rparr>
        (js ''{"event":"done","inference_ms":900}'')
        (snd (startInference Running \<lparr>currentTime = 0, performance_now = 100, Date_now = 4000\<rparr>
               (js ''alice'') (js ''Hello'') initial_app_state))))) = None
   \<and> snd (snd (legacy_line_handler scenario_platform
        \<lparr>currentTime = 1, performance_now = 1100, Date_now = 5000\<rparr>
        \<lparr>legacy_controller = 0, start = 100, firstChunkTime = Some 40\<rparr>
        (js ''{"event":"done","inference_ms":900}'')
        (initial_legacy_state\<lparr>streamTiming := FirstAudio 40\<rparr>)))
     = initial_legacy_state\<lparr>streamTiming := Total 1000, streamStatus := DoneText\<rparr>\<close>
  by (simp add: eval_defs handler_defs startInference_def legacy_line_handler_def)


lemma handle_line_undecodable_exact:
  assumes "JSON_parse P line = Some (JObject kvs)"
    and "map_of kvs (js ''event'') \<noteq> Some (JString (js ''done''))"
    and "map_of kvs (js ''audio_base64'') = Some payload"
    and "\<not> falsy (Some payload)"
    and "audioContextRef st \<noteq> None"
    and "case atob P payload of
           None \<Rightarrow> True
         | Some binary \<Rightarrow> decodeAudioData P (binary_to_bytes binary) = None"
  shows "handle_line P clk sess line st =
      ((case atob P payload of
          None \<Rightarrow> Rejected InvalidCharacterError
        | Some binary \<Rightarrow> Rejected EncodingError),
       sess\<lparr>firstChunk := False\<rparr>,
       st\<lparr>latency :=
            (if firstChunk sess
             then Some \<lparr>ttfa = Math_round (performance_now clk - startTime sess), total = JNumber 0\<rparr>
             else latency st)\<rparr>)"
  using assms
  by (auto simp: handle_line_def line_handler_def decode_settled_def Let_def
      split: option.splits sum.splits prod.splits if_splits)

lemma legacy_handle_line_undecodable:
  assumes "JSON_parse P line = Some (JObject kvs)"
    and "map_of kvs (js ''event'') \<noteq> Some (JString (js ''done''))"
    and "map_of kvs (js ''audio_base64'') = Some payload"
    and "\<not> falsy (Some payload)"
    and "case atob P payload of
           None \<Rightarrow> True
         | Some binary \<Rightarrow> decodeAudioData P (binary_to_bytes binary) = None"
  shows "fst (legacy_handle_line P clk lsess line lst) = Fulfilled
     \<and> streamLog (snd (snd (legacy_handle_line P clk lsess line lst))) =
         streamLog lst @
           [ParseErrorLine
              (case atob P payload of
                 None \<Rightarrow> InvalidCharacterError
               | Some binary \<Rightarrow>
                   (case audioCtx lst of None \<Rightarrow> TypeError | Some ctx \<Rightarrow> EncodingError))]
     \<and> audioCtx (snd (snd (legacy_handle_line P clk lsess line lst))) = audioCtx lst
     \<and> nextStart (snd (snd (legacy_handle_line P clk lsess line lst))) = nextStart lst"
  using assms
  by (auto simp: legacy_handle_line_def legacy_line_handler_def legacy_decode_settled_def
      caught_def Let_def split: option.splits sum.splits prod.splits if_splits)

text \<open>
  C9. An audio record whose payload does not decode (\<open>atob\<close> throws, or \<open>decodeAudioData\<close>
  rejects) is dropped without a warning by the React handler: its promise is rejected and
  nothing handles it, and the state differs from the one before at most in \<open>latency\<close>, so
  nothing is scheduled, \<open>nextStartTime\<close> is as before and nothing is reported. A rejected
  decode leaves any state as it is, and a \<open>done\<close> record handled in any state afterwards
  sets the inference step to \<open>done\<close>. The legacy handler catches the same failure and
  appends \<open>Parse error\<close> to the stream log.
\<close>

theorem C9_undecodable_chunk_not_reported:
  assumes "JSON_parse P line = Some (JObject kvs)"
    and "map_of kvs (js ''event'') \<noteq> Some (JString (js ''done''))"
    and "map_of kvs (js ''audio_base64'') = Some payload"
    and "\<not> falsy (Some payload)"
    and "audioContextRef st \<noteq> None"
    and "case atob P payload of
           None \<Rightarrow> True
         | Some binary \<Rightarrow> decodeAudioData P (binary_to_bytes binary) = None"
    and "JSON_parse P done_line = Some (JObject done_kvs)"
    and "map_of done_kvs (js ''event'') = Some (JString (js ''done''))"
  shows
    "handle_line P clk sess line st =
      ((case atob P payload of
          None \<Rightarrow> Rejected InvalidCharacterError
        | Some binary \<Rightarrow> Rejected EncodingError),
       sess\<lparr>firstChunk := False\<rparr>,
       st\<lparr>latency :=
            (if firstChunk sess
             then Some \<lparr>ttfa = Math_round (performance_now clk - startTime sess), total = JNumber 0\<rparr>
             else latency st)\<rparr>)
     \<and> decode_settled clk' idx None st' = (Rejected EncodingError, st')
     \<and> started (snd (snd (handle_line P clk sess line st))) = started st
     \<and> nextStartTimeRef (snd (snd (handle_line P clk sess line st))) = nextStartTimeRef st
     \<and> inferenceStatus (snd (snd (line_handler P clk' sess' done_line st'))) = StatusDone
     \<and> fst (legacy_handle_line P clk lsess line lst) = Fulfilled
     \<and> streamLog (snd (snd (legacy_handle_line P clk lsess line lst))) =
         streamLog lst @
           [ParseErrorLine
              (case atob P payload of
                 None \<Rightarrow> InvalidCharacterError
               | Some binary \<Rightarrow>
                   (case audioCtx lst of None \<Rightarrow> TypeError | Some ctx \<Rightarrow> EncodingError))]
     \<and> audioCtx (snd (snd (legacy_handle_line P clk lsess line lst))) = audioCtx lst
     \<and> nextStart (snd (snd (legacy_handle_line P clk lsess line lst))) = nextStart lst"
proof -
  note r = handle_line_undecodable_exact [OF assms(1-6), of clk sess]
  note l = legacy_handle_line_undecodable [OF assms(1-4) assms(6), of clk lsess lst]
  have d: "inferenceStatus (snd (snd (line_handler P clk' sess' done_line st'))) = StatusDone"
    using assms(7,8) by (simp add: line_handler_def Let_def)
  have n: "decode_settled clk' idx None st' = (Rejected EncodingError, st')"
    by (simp add: decode_settled_def)
  show ?thesis
    unfolding r using l d n by (simp add: started_def)
qed

text \<open>
  The theorem at a payload that \<open>atob\<close> accepts and \<open>decodeAudioData\<close> rejects; the legacy
  handler also logs the payload \<open><invalid>\<close>, on which \<open>atob\<close> throws.
\<close>

theorem C9_undecodable_chunk_not_reported_witness:
  \<open>JSON_parse scenario_platform (js ''{"audio_base64":"AAAA"}'') =
      Some (JObject [(js ''audio_base64'', JString (js ''AAAA''))])
   \<and> map_of [(js ''audio_base64'', JString (js ''AAAA''))] (js ''event'')
        \<noteq> Some (JString (js ''done''))
   \<and> map_of [(js ''audio_base64'', JString (js ''AAAA''))] (js ''audio_base64'')
        = Some (JString (js ''AAAA''))
   \<and> \<not> falsy (Some (JString (js ''AAAA'')))
   \<and> audioContextRef (ensureAudioContext Running initial_app_state) \<noteq> None
   \<and> atob scenario_platform (JString (js ''AAAA'')) = Some [0, 0, 0]
   \<and> decodeAudioData scenario_platform (binary_to_bytes [0, 0, 0]) = None
   \<and> JSON_parse scenario_platform (js ''{"event":"done"}'') =
      Some (JObject [(js ''event'', JString (js ''done''))])
   \<and> handle_line scenario_platform
        \<lparr>currentTime = 1, performance_now = 1100, Date_now = 5000\<rparr>
        \<lparr>controller = 0, startTime = 100, firstChunk = True\<rparr>
        (js ''{"audio_base64":"AAAA"}'')
        (ensureAudioContext Running initial_app_state) =
      (Rejected EncodingError,
       \<lparr>controller = 0, startTime = 100, firstChunk = False\<rparr>,
       (ensureAudioContext Running initial_app_state)
         \<lparr>latency := Some \<lparr>ttfa = 1000, total = JNumber 0\<rparr>\<rparr>)
   \<and> streamLog (snd (snd (legacy_handle_line scenario_platform
        \<lparr>currentTime = 1, performance_now = 1100, Date_now = 5000\<rparr>
        \<lparr>legacy_controller = 0, start = 100, firstChunkTime = None\<rparr>
        (js ''{"audio_base64":"AAAA"}'')
        (legacy_ensureAudioContext Running initial_legacy_state)))) =
      [ParseErrorLine EncodingError]
   \<and> streamLog (snd (snd (legacy_handle_line scenario_platform
        \<lparr>currentTime = 1, performance_now = 1100, Date_now = 5000\<rparr>
        \<lparr>legacy_controller = 0, start = 100, firstChunkTime = None\<rparr>
        (js ''{"audio_base64":"<invalid>"}'')
        (legacy_ensureAudioContext Running initial_legacy_state)))) =
      [ParseErrorLine InvalidCharacterError]\<close>
  using C9_undecodable_chunk_not_reported [of scenario_platform
      \<open>js ''{"audio_base64":"AAAA"}''\<close>
      "[(js ''audio_base64'', JString (js ''AAAA''))]"
      "JString (js ''AAAA'')"
      "ensureAudioContext Running initial_app_state"
      \<open>js ''{"event":"done"}''\<close>
      "[(js ''event'', JString (js ''done''))]"
      "\<lparr>currentTime = 1, performance_now = 1100, Date_now = 5000\<rparr>"
      "\<lparr>controller = 0, startTime = 100, firstChunk = True\<rparr>"]
  by (simp add: eval_defs handler_defs legacy_handle_line_def legacy_line_handler_def
      legacy_decode_settled_def caught_def)

text \<open>
  C3. The React line handler is not total: on a line that \<open>JSON.parse\<close> does not accept it
  throws, so its promise is rejected with SyntaxError (nothing catches it), the state is
  as before and the line is reported nowhere; \<open>streamResponseLines\<close> goes on with the next
  line. The legacy handler catches the same error and appends \<open>Parse error\<close> to the stream
  log.
\<close>

theorem C3_react_handler_rejects:
  assumes "JSON_parse P line = None"
  shows "line_handler P clk sess line st = (Rejected SyntaxError, sess, st)
     \<and> handle_line P clk sess line st = (Rejected SyntaxError, sess, st)
     \<and> process_lines P ((clk, line) # rest) sess st = process_lines P rest sess st
     \<and> legacy_handle_line P clk lsess line lst =
         (Fulfilled, lsess, lst\<lparr>streamLog := streamLog lst @ [ParseErrorLine SyntaxError]\<rparr>)"
  using assms
  by (simp add: line_handler_def handle_line_def legacy_handle_line_def
      legacy_line_handler_def caught_def)

text \<open>
  The theorem at the progress line \<open>Loading model...\<close>; the line \<open>null\<close>, which is JSON,
  makes the React handler throw TypeError at \<open>data.event\<close>.
\<close>

theorem C3_react_handler_rejects_witness:
  \<open>JSON_parse scenario_platform (js ''Loading model...'') = None
   \<and> fst (line_handler scenario_platform
        \<lparr>currentTime = 1, performance_now = 1100, Date_now = 5000\<rparr>
        \<lparr>controller = 0, startTime = 100, firstChunk = True\<rparr>
        (js ''Loading model...'')
        (ensureAudioContext Running initial_app_state)) = Rejected SyntaxError
   \<and> fst (line_handler scenario_platform
        \<lparr>currentTime = 1, performance_now = 1100, Date_now = 5000\<rparr>
        \<lparr>controller = 0, startTime = 100, firstChunk = True\<rparr>
        (js ''null'')
        (ensureAudioContext Running initial_app_state)) = Rejected TypeError
   \<and> streamLog (snd (snd (legacy_handle_line scenario_platform
        \<lparr>currentTime = 1, performance_now = 1100, Date_now = 5000\<rparr>
        \<lparr>legacy_controller = 0, start = 100, firstChunkTime = None\<rparr>
        (js ''Loading model...'')
        (legacy_ensureAudioContext Running initial_legacy_state)))) =
      [ParseErrorLine SyntaxError]\<close>
  using C3_react_handler_rejects [of scenario_platform \<open>js ''Loading model...''\<close>
      "\<lparr>currentTime = 1, performance_now = 1100, Date_now = 5000\<rparr>"
      "\<lparr>controller = 0, startTime = 100, firstChunk = True\<rparr>"
      "ensureAudioContext Running initial_app_state" "[]"
      "\<lparr>legacy_controller = 0, start = 100, firstChunkTime = None\<rparr>"
      "legacy_ensureAudioContext Running initial_legacy_state"]
  by (simp add: eval_defs handler_defs)

lemma line_handler_unrecognised:
  assumes "JSON_parse P line = Some (JObject kvs)"
    and "map_of kvs (js ''event'') \<noteq> Some (JString (js ''done''))"
    and "falsy (map_of kvs (js ''audio_base64''))"
  shows "handle_line P clk sess line st = (Fulfilled, sess, st)
     \<and> legacy_handle_line P clk lsess line lst = (Fulfilled, lsess, lst)"
  using assms
  by (auto simp: line_handler_def handle_line_def legacy_handle_line_def
      legacy_line_handler_def split: option.splits)

lemma startInference_aborts_prior:
  assumes "profile_name \<noteq> []" and "inferenceText \<noteq> []" and "streamAbortRef st = Some prior"
  shows "aborted (snd (startInference init clk profile_name inferenceText st)) =
           aborted st @ [prior]
     \<and> streamAbortRef (snd (startInference init clk profile_name inferenceText st)) =
           Some (controllers st)"
  using assms by (simp add: startInference_def ensureAudioContext_def Let_def)

lemma streamBtn_click_keeps_prior:
  assumes "trim inferProfile \<noteq> []" and "trim inferText \<noteq> []"
  shows "legacy_aborted (snd (streamBtn_click init clk inferProfile inferText st)) =
           legacy_aborted st
     \<and> streamAbort (snd (streamBtn_click init clk inferProfile inferText st)) =
           Some (legacy_controllers st)"
  using assms by (simp add: streamBtn_click_def legacy_ensureAudioContext_def Let_def)

lemma trim_alice: "trim (js ''alice'') = js ''alice''"
  by (simp add: trim_def js_def is_js_space_def)

lemma trim_Hello: "trim (js ''Hello'') = js ''Hello''"
  by (simp add: trim_def js_def is_js_space_def)

text \<open>
  C6. Two clicks on the legacy \<open>streamBtn\<close>, the second while the first request is in
  flight: the second controller replaces the first in \<open>state.streamAbort\<close>, no controller
  has been aborted, and both sessions hold the same audio context. The same two starts in
  the React implementation abort the first controller.
\<close>

theorem C6_legacy_second_click_keeps_first_request:
  "(case streamBtn_click Running \<lparr>currentTime = 0, performance_now = 100, Date_now = 4000\<rparr>
           (js ''alice'') (js ''Hello'') initial_legacy_state of
      (s1, st1) \<Rightarrow>
        (case streamBtn_click Running \<lparr>currentTime = 1, performance_now = 1100, Date_now = 5000\<rparr>
                (js ''alice'') (js ''Hello'') st1 of
           (s2, st2) \<Rightarrow>
             map_option legacy_controller s1 = Some 0
             \<and> map_option legacy_controller s2 = Some 1
             \<and> streamAbort st2 = Some 1
             \<and> legacy_aborted st2 = []
             \<and> audioCtx st2 = audioCtx st1))
   \<and> (case startInference Running \<lparr>currentTime = 0, performance_now = 100, Date_now = 4000\<rparr>
           (js ''alice'') (js ''Hello'') initial_app_state of
      (s1, st1) \<Rightarrow>
        (case startInference Running \<lparr>currentTime = 1, performance_now = 1100, Date_now = 5000\<rparr>
                (js ''alice'') (js ''Hello'') st1 of
           (s2, st2) \<Rightarrow>
             map_option controller s1 = Some 0
             \<and> map_option controller s2 = Some 1
             \<and> streamAbortRef st2 = Some 1
             \<and> aborted st2 = [0]))"
  by (simp add: streamBtn_click_def startInference_def trim_alice trim_Hello eval_defs)
     (simp add: js_def)

end
